theory Spec2Isabelle
  imports Complex_Main "HOL-Library.Sublist"
begin

section \<open>Python values used by \<^verbatim>\<open>main.py\<close>\<close>

text \<open>
  The script \<^verbatim>\<open>src/main.py\<close> is a Streamlit page: the whole file runs top to bottom on
  every user interaction, and everything that survives a run lives in
  \<^verbatim>\<open>st.session_state\<close>. The model passes that state explicitly, takes the date and the
  answer of the Gemini client as inputs of a run, and returns the widgets a run draws
  as a list.

  A Python \<^verbatim>\<open>str\<close> is the list of its code points, each a natural number; \<open>asc\<close>
  writes one whose characters are ASCII.
\<close>

type_synonym pystr = "nat list"

definition asc :: "string \<Rightarrow> pystr" where
  "asc s = map of_char s"

subsection \<open>Exceptions\<close>

text \<open>The exceptions that the script's own operations can raise, each with its message.\<close>

datatype py_error =
    ZeroDivisionError
  | KeyError pystr
  | ValueError pystr
  | StreamlitAPIException pystr

text \<open>\<^verbatim>\<open>str(e)\<close>, as the \<^verbatim>\<open>except\<close> branch reads it.\<close>

fun str_of_error :: "py_error \<Rightarrow> pystr" where
  "str_of_error ZeroDivisionError = asc ''division by zero''"
| "str_of_error (KeyError k) = [39] @ k @ [39]"
| "str_of_error (ValueError m) = m"
| "str_of_error (StreamlitAPIException m) = m"

subsection \<open>\<^verbatim>\<open>str.strip()\<close>, \<^verbatim>\<open>str.split()\<close>, \<^verbatim>\<open>str.lower()\<close>, \<^verbatim>\<open>in\<close>\<close>

text \<open>
  The whitespace of \<^verbatim>\<open>str.isspace\<close>, \<^verbatim>\<open>str.strip()\<close> and \<^verbatim>\<open>str.split()\<close>: TAB to CR, FS to
  US and the space; NEL (U+0085) and the no-break space (U+00A0); U+1680, U+2000 to
  U+200A, U+2028, U+2029, U+202F, U+205F and U+3000.
\<close>

definition isspace :: "nat \<Rightarrow> bool" where
  "isspace c =
     ((9 \<le> c \<and> c \<le> 13) \<or> (28 \<le> c \<and> c \<le> 32) \<or> c = 133 \<or> c = 160 \<or> c = 5760
      \<or> (8192 \<le> c \<and> c \<le> 8202) \<or> c = 8232 \<or> c = 8233 \<or> c = 8239 \<or> c = 8287
      \<or> c = 12288)"

definition strip :: "pystr \<Rightarrow> pystr" where
  "strip s = rev (dropWhile isspace (rev (dropWhile isspace s)))"

text \<open>
  \<^verbatim>\<open>s.split()\<close> with no separator: the maximal runs of non-whitespace characters, in
  order; leading, trailing and repeated whitespace produce no empty word. The scan keeps
  the word read so far (reversed) in \<open>cur\<close>.
\<close>

fun split_scan :: "pystr \<Rightarrow> pystr \<Rightarrow> pystr list" where
  "split_scan cur [] = (if cur = [] then [] else [rev cur])"
| "split_scan cur (c # cs) =
     (if isspace c then (if cur = [] then split_scan [] cs else rev cur # split_scan [] cs)
      else split_scan (c # cur) cs)"

definition split :: "pystr \<Rightarrow> pystr list" where
  "split s = split_scan [] s"

text \<open>\<^verbatim>\<open>str.lower()\<close> on ASCII letters; the script applies it to the five slider labels only.\<close>

definition lower_char :: "nat \<Rightarrow> nat" where
  "lower_char c = (if 65 \<le> c \<and> c \<le> 90 then c + 32 else c)"

definition lower :: "pystr \<Rightarrow> pystr" where
  "lower s = map lower_char s"

text \<open>\<^verbatim>\<open>p in s\<close> on strings: \<open>p\<close> occurs in \<open>s\<close> as a contiguous piece.\<close>

fun str_in :: "pystr \<Rightarrow> pystr \<Rightarrow> bool" where
  "str_in p [] = (p = [])"
| "str_in p (c # cs) = (prefix p (c # cs) \<or> str_in p cs)"

subsection \<open>\<^verbatim>\<open>str(n)\<close> and \<^verbatim>\<open>int(s)\<close>\<close>

text \<open>
  \<^verbatim>\<open>str\<close> of an \<^verbatim>\<open>int\<close>, as the f-strings of the script call it. The numbers the script
  prints are the length of a list, the limit, which is 50 or a number that \<^verbatim>\<open>int\<close> has
  read from at most 4300 digits, and a counter that grows by one with each summary: none
  of them has the more than 4300 digits that \<^verbatim>\<open>str\<close> refuses.
\<close>

definition digit_char :: "nat \<Rightarrow> nat" where
  "digit_char d = 48 + d"

fun str_nat :: "nat \<Rightarrow> pystr" where
  "str_nat n = (if n < 10 then [digit_char n] else str_nat (n div 10) @ [digit_char (n mod 10)])"

declare str_nat.simps [simp del]

definition str_int :: "int \<Rightarrow> pystr" where
  "str_int i = (if i < 0 then 45 # str_nat (nat (- i)) else str_nat (nat i))"

text \<open>
  The decimal digits of Unicode 14.0, the version of Python 3.11, which are what \<^verbatim>\<open>\d\<close>
  matches in a \<^verbatim>\<open>str\<close> pattern and what \<^verbatim>\<open>int\<close> reads: 66 runs of ten code points, each run
  the digits 0 to 9 of one script. The table lists the zero of every run, the ASCII one
  first.
\<close>

definition decimal_zeros :: "nat list" where
  "decimal_zeros =
     [48, 1632, 1776, 1984, 2406, 2534, 2662, 2790, 2918, 3046, 3174, 3302, 3430, 3558,
      3664, 3792, 3872, 4160, 4240, 6112, 6160, 6470, 6608, 6784, 6800, 6992, 7088, 7232,
      7248, 42528, 43216, 43264, 43472, 43504, 43600, 44016, 65296, 66720, 68912, 69734,
      69872, 69942, 70096, 70384, 70736, 70864, 71248, 71360, 71472, 71904, 72016, 72784,
      73040, 73120, 92768, 92864, 93008, 120782, 120792, 120802, 120812, 120822, 123200,
      123632, 125264, 130032]"

definition decimal_digit :: "nat \<Rightarrow> nat option" where
  "decimal_digit c =
     (case find (\<lambda>z. z \<le> c \<and> c < z + 10) decimal_zeros of
        None \<Rightarrow> None
      | Some z \<Rightarrow> Some (c - z))"

definition isdecimal :: "nat \<Rightarrow> bool" where
  "isdecimal c = (decimal_digit c \<noteq> None)"

definition digit_val :: "nat \<Rightarrow> nat" where
  "digit_val c = (case decimal_digit c of None \<Rightarrow> 0 | Some d \<Rightarrow> d)"

text \<open>The number that a run of decimal digits spells.\<close>

definition decimal_value :: "pystr \<Rightarrow> int" where
  "decimal_value ds = int (foldl (\<lambda>acc c. 10 * acc + digit_val c) 0 ds)"

text \<open>
  \<^verbatim>\<open>int(s)\<close> on a non-empty run of decimal digits, which is all the script passes to it:
  the number the run spells, unless the run has more than 4300 digits, leading zeros
  counted, which \<^verbatim>\<open>int\<close> refuses with a \<^verbatim>\<open>ValueError\<close> (the default limit of Python 3.11).
\<close>

definition digits_limit_message :: "nat \<Rightarrow> pystr" where
  "digits_limit_message n =
     asc ''Exceeds the limit (4300 digits) for integer string conversion: value has ''
     @ str_nat n @ asc '' digits; use sys.set_int_max_str_digits() to increase the limit''"

definition py_int :: "pystr \<Rightarrow> py_error + int" where
  "py_int ds =
     (if 4300 < length ds then Inl (ValueError (digits_limit_message (length ds)))
      else Inr (decimal_value ds))"

subsection \<open>Floats\<close>

text \<open>
  A Python \<^verbatim>\<open>float\<close> is an IEEE binary64 number; a finite one is a rational number, and
  the model keeps a float as the number it denotes. Every float operation of the script
  rounds its exact result to the nearest number with a 53-bit significand, ties to the
  even significand. The exponent range is not modelled: the model and binary64 agree on
  magnitudes from \<open>2\<^sup>-\<^sup>1\<^sup>0\<^sup>2\<^sup>2\<close> up to \<open>2\<^sup>1\<^sup>0\<^sup>2\<^sup>4\<close>, which covers every quotient of request
  counters and word counts that fit in memory. The sign of a zero is not kept.
\<close>

fun bit_length :: "nat \<Rightarrow> nat" where
  "bit_length n = (if n = 0 then 0 else Suc (bit_length (n div 2)))"

declare bit_length.simps [simp del]

text \<open>\<open>\<lfloor>log\<^sub>2 x\<rfloor>\<close> for a positive \<open>x\<close>.\<close>

definition floor_log2 :: "real \<Rightarrow> int" where
  "floor_log2 x =
     (if 1 \<le> x then int (bit_length (nat \<lfloor>x\<rfloor>)) - 1
      else - int (bit_length (nat (\<lceil>1 / x\<rceil> - 1))))"

text \<open>The integer nearest to \<open>x\<close>, a tie going to the even one.\<close>

definition round_half_even :: "real \<Rightarrow> int" where
  "round_half_even x =
     (let d = \<lfloor>x\<rfloor>; r = x - of_int d
      in if r < 1 / 2 then d else if 1 / 2 < r then d + 1 else if even d then d else d + 1)"

text \<open>The binary64 number nearest to \<open>x\<close>: 53 significant bits, the last one worth \<open>2\<^sup>e\<close>.\<close>

definition round53 :: "real \<Rightarrow> real" where
  "round53 x =
     (if x = 0 then 0
      else let e = floor_log2 \<bar>x\<bar> - 52
           in if 0 \<le> e then of_int (round_half_even (x / 2 ^ nat e)) * 2 ^ nat e
              else of_int (round_half_even (x * 2 ^ nat (- e))) / 2 ^ nat (- e))"

text \<open>A float literal such as \<^verbatim>\<open>0.1\<close>, given as the decimal fraction it spells.\<close>

definition float_literal :: "real \<Rightarrow> real" where
  "float_literal x = round53 x"

text \<open>\<^verbatim>\<open>a / b\<close> on two \<^verbatim>\<open>int\<close>s: the correctly rounded quotient, or \<^verbatim>\<open>ZeroDivisionError\<close>.\<close>

definition py_truediv :: "int \<Rightarrow> int \<Rightarrow> py_error + real" where
  "py_truediv a b =
     (if b = 0 then Inl ZeroDivisionError else Inr (round53 (of_int a / of_int b)))"

text \<open>\<^verbatim>\<open>x * n\<close> on a float and an \<^verbatim>\<open>int\<close>: the \<^verbatim>\<open>int\<close> becomes a float, the product is rounded.\<close>

definition py_fmul :: "real \<Rightarrow> int \<Rightarrow> real" where
  "py_fmul x n = round53 (x * round53 (of_int n))"

text \<open>
  \<^verbatim>\<open>math.isclose(a, b, rel_tol=r, abs_tol=t)\<close> on finite floats: the difference and the two
  products are float operations.
\<close>

definition isclose :: "real \<Rightarrow> real \<Rightarrow> real \<Rightarrow> real \<Rightarrow> bool" where
  "isclose a b rel_tol abs_tol =
     (a = b \<or>
      (let diff = \<bar>round53 (b - a)\<bar>
       in diff \<le> \<bar>round53 (rel_tol * b)\<bar> \<or> diff \<le> \<bar>round53 (rel_tol * a)\<bar>
          \<or> diff \<le> abs_tol))"

section \<open>The session state and the inputs of a run\<close>

text \<open>
  \<^verbatim>\<open>st.session_state\<close> holds five keys. They are created together on the first run
  of a session (lines 21 to 36) and never deleted, so a session is either new
  (\<open>None\<close>) or has all five.
\<close>

record session =
  day :: pystr
  request_count :: int
  daily_limit :: int
  history :: "(pystr \<times> pystr) list"
  input_text :: pystr

text \<open>The options of lines 98 to 110, each one of the fixed choices of its widget.\<close>

datatype summary_length = Very_short | Short | Balanced | Detailed | Very_detailed

datatype language = English | Hindi

datatype format_type = Paragraph | Bullet_points

fun summary_length_label :: "summary_length \<Rightarrow> pystr" where
  "summary_length_label Very_short = asc ''Very short''"
| "summary_length_label Short = asc ''Short''"
| "summary_length_label Balanced = asc ''Balanced''"
| "summary_length_label Detailed = asc ''Detailed''"
| "summary_length_label Very_detailed = asc ''Very detailed''"

fun language_label :: "language \<Rightarrow> pystr" where
  "language_label English = asc ''English''"
| "language_label Hindi = asc ''Hindi''"

fun format_type_label :: "format_type \<Rightarrow> pystr" where
  "format_type_label Paragraph = asc ''Paragraph''"
| "format_type_label Bullet_points = asc ''Bullet points''"

record options =
  length_choice :: summary_length
  max_tokens :: int
  language_choice :: language
  format_choice :: format_type

text \<open>The arguments of \<^verbatim>\<open>client.models.generate_content\<close> (lines 148 to 155).\<close>

record api_request =
  model :: pystr
  contents :: pystr
  config_temperature :: real
  config_max_output_tokens :: int

text \<open>
  The client is an input of the model: for a request it either raises, and \<open>Inl\<close> holds
  the \<^verbatim>\<open>str(e)\<close> of the exception, or returns, and \<open>Inr\<close> holds \<^verbatim>\<open>response.text\<close>,
  taken to be a string.
\<close>

type_synonym client = "api_request \<Rightarrow> pystr + pystr"

text \<open>
  What a run shows. Titles, captions, rules and the spinner are left out; the percentage
  metric carries the number that \<^verbatim>\<open>f"{reduction:.1f}%"\<close> prints.
\<close>

datatype widget =
    St_progress real
  | St_write pystr
  | St_error pystr
  | St_warning pystr
  | St_info pystr
  | St_download_button pystr pystr pystr
  | St_metric_int pystr int
  | St_metric_percent pystr real
  | St_markdown pystr

datatype button = Clear_chat | Load_sample | Generate_summary

text \<open>
  One interaction of the user, which triggers one run of the script: the date of the run,
  the new content of the text area if the user edited it, the button pressed if any, the
  options, and the behaviour of the client during the run. The file upload (lines 73 to
  90) is not modelled.
\<close>

record interaction =
  today :: pystr
  typed :: "pystr option"
  pressed :: "button option"
  chosen :: options
  gemini :: client

text \<open>
  What a run leaves behind: the widgets drawn, the requests sent to the client, whether
  \<^verbatim>\<open>st.stop()\<close> ended the run, an exception that escaped and ended it, and the session
  state.
\<close>

record outcome =
  drawn :: "widget list"
  requests :: "api_request list"
  stopped :: bool
  uncaught :: "py_error option"
  final :: session

section \<open>The script\<close>

subsection \<open>Daily reset (lines 19 to 36)\<close>

definition daily_reset :: "pystr \<Rightarrow> session option \<Rightarrow> session" where
  "daily_reset today' st =
     (case st of
        None \<Rightarrow> \<lparr>day = today', request_count = 0, daily_limit = 50, history = [], input_text = []\<rparr>
      | Some s \<Rightarrow> if day s \<noteq> today' then s\<lparr>day := today', request_count := 0\<rparr> else s)"

subsection \<open>Sidebar (lines 44 to 53)\<close>

definition remaining :: "session \<Rightarrow> int" where
  "remaining s = max 0 (daily_limit s - request_count s)"

text \<open>\<^verbatim>\<open>used / limit if limit else 0\<close>\<close>

definition progress_value :: "session \<Rightarrow> py_error + real" where
  "progress_value s =
     (let used = request_count s; limit = daily_limit s
      in if limit \<noteq> 0 then py_truediv used limit else Inr 0)"

text \<open>
  \<^verbatim>\<open>st.progress\<close> takes a float from 0.0 to 1.0 (or an \<^verbatim>\<open>int\<close> from 0 to 100, which is how
  the 0 of the guard arrives) and raises \<^verbatim>\<open>StreamlitAPIException\<close> for a value outside that
  range; the message goes on with the value. Its range check lets a float pass that
  \<^verbatim>\<open>math.isclose\<close> finds at one of the two ends, with both tolerances \<^verbatim>\<open>1e-9\<close>.
\<close>

definition check_float_between :: "real \<Rightarrow> bool" where
  "check_float_between v =
     (let tol = float_literal (1 / 10 ^ 9)
      in (0 \<le> v \<and> v \<le> 1) \<or> isclose v 0 tol tol \<or> isclose v 1 tol tol)"

definition st_progress :: "real \<Rightarrow> py_error + widget" where
  "st_progress v =
     (if check_float_between v then Inr (St_progress v)
      else Inl (StreamlitAPIException (asc ''Progress Value has invalid value [0.0, 1.0]'')))"

definition sidebar :: "session \<Rightarrow> py_error + widget list" where
  "sidebar s =
     (case progress_value s of
        Inl e \<Rightarrow> Inl e
      | Inr v \<Rightarrow>
          (case st_progress v of
             Inl e \<Rightarrow> Inl e
           | Inr bar \<Rightarrow> Inr [bar,
                            St_write (asc ''Used: **'' @ str_int (request_count s) @ asc ''**''),
                            St_write (asc ''Remaining: **'' @ str_int (remaining s) @ asc ''**'')]))"

subsection \<open>Temperature (lines 113 to 120)\<close>

definition temp_map :: "(pystr \<times> real) list" where
  "temp_map =
     [(asc ''Very short'', float_literal (1 / 10)),
      (asc ''Short'', float_literal (3 / 10)),
      (asc ''Balanced'', float_literal (5 / 10)),
      (asc ''Detailed'', float_literal (7 / 10)),
      (asc ''Very detailed'', float_literal (9 / 10))]"

text \<open>\<^verbatim>\<open>temp_map[summary_length]\<close>: a missing key raises \<^verbatim>\<open>KeyError\<close>.\<close>

definition temperature :: "summary_length \<Rightarrow> py_error + real" where
  "temperature l =
     (case map_of temp_map (summary_length_label l) of
        None \<Rightarrow> Inl (KeyError (summary_length_label l))
      | Some t \<Rightarrow> Inr t)"

subsection \<open>The Generate Summary handler (lines 123 to 194)\<close>

text \<open>The emoji of the messages: U+1F6AB, U+1F4C4, U+1F4CB, U+1F7E2, U+1F916.\<close>

definition no_entry_sign :: pystr where
  "no_entry_sign = [0x1F6AB]"

definition page_facing_up :: pystr where
  "page_facing_up = [0x1F4C4]"

definition clipboard :: pystr where
  "clipboard = [0x1F4CB]"

definition green_circle :: pystr where
  "green_circle = [0x1F7E2]"

definition robot_face :: pystr where
  "robot_face = [0x1F916]"

text \<open>The f-string of lines 137 to 145; it starts and ends with a line feed (U+000A).\<close>

definition prompt :: "options \<Rightarrow> pystr \<Rightarrow> pystr" where
  "prompt opts text_input =
     [10] @ asc ''Provide a '' @ lower (summary_length_label (length_choice opts)) @ asc '' summary.''
     @ [10, 10] @ asc ''Language: '' @ language_label (language_choice opts)
     @ [10] @ asc ''Format: '' @ format_type_label (format_choice opts)
     @ [10, 10] @ asc ''Text:''
     @ [10] @ text_input @ [10]"

definition request :: "real \<Rightarrow> options \<Rightarrow> pystr \<Rightarrow> api_request" where
  "request t opts text_input =
     \<lparr>model = asc ''gemini-2.5-flash'', contents = prompt opts text_input,
      config_temperature = t, config_max_output_tokens = max_tokens opts\<rparr>"

text \<open>Line 161.\<close>

definition preview :: "pystr \<Rightarrow> pystr" where
  "preview text_input =
     page_facing_up @ asc '' Text submitted ('' @ str_nat (length (split text_input)) @ asc '' words)''"

text \<open>Line 175: \<^verbatim>\<open>((original - summ)/original*100) if original else 0\<close>\<close>

definition reduction :: "int \<Rightarrow> int \<Rightarrow> py_error + real" where
  "reduction original summ =
     (if original \<noteq> 0
      then (case py_truediv (original - summ) original of
              Inl e \<Rightarrow> Inl e
            | Inr x \<Rightarrow> Inr (py_fmul x 100))
      else Inr 0)"

text \<open>
  \<^verbatim>\<open>re.search(r'quotaValue[^\d]*(\d+)', txt)\<close>, returning group 1 of the match. At a
  position where \<^verbatim>\<open>quotaValue\<close> starts, the greedy \<^verbatim>\<open>[^\d]*\<close> runs up to the next
  decimal digit or the end of the text; giving characters back cannot help, since each of
  them is not a digit. The greedy \<^verbatim>\<open>\d+\<close> then takes the whole run of digits. The search
  tries the positions from the left.
\<close>

definition match_here :: "pystr \<Rightarrow> pystr option" where
  "match_here s =
     (if prefix (asc ''quotaValue'') s
      then (let rest = dropWhile (\<lambda>c. \<not> isdecimal c) (drop 10 s)
            in if rest = [] then None else Some (takeWhile isdecimal rest))
      else None)"

fun re_search :: "pystr \<Rightarrow> pystr option" where
  "re_search [] = match_here []"
| "re_search (c # cs) =
     (case match_here (c # cs) of Some g \<Rightarrow> Some g | None \<Rightarrow> re_search cs)"

text \<open>
  The \<^verbatim>\<open>except\<close> branch (lines 182 to 194) on the text of the exception. The \<^verbatim>\<open>int\<close> of
  line 189 can raise; nothing catches that exception, which leaves the branch before
  anything is drawn or written: \<open>Inl\<close>.
\<close>

definition handle_exception :: "pystr \<Rightarrow> session \<Rightarrow> py_error + widget list \<times> session" where
  "handle_exception txt s =
     (if str_in (asc ''RESOURCE_EXHAUSTED'') txt \<or> str_in (asc ''429'') txt
      then (case (case re_search txt of
                    Some g \<Rightarrow>
                      (case py_int g of
                         Inl e \<Rightarrow> Inl e
                       | Inr n \<Rightarrow> Inr (s\<lparr>daily_limit := n\<rparr>))
                  | None \<Rightarrow> Inr s) of
              Inl e \<Rightarrow> Inl e
            | Inr s' \<Rightarrow>
                Inr ([St_error (no_entry_sign @ asc '' Gemini quota reached''),
                      St_info (asc ''Daily limit: '' @ str_int (daily_limit s'))], s'))
      else Inr ([St_error txt], s))"

text \<open>
  The session that the \<^verbatim>\<open>except\<close> branch leaves: the one it found when the \<^verbatim>\<open>int\<close> of
  line 189 raises, since the assignment has not happened then.
\<close>

definition after_exception :: "pystr \<Rightarrow> session \<Rightarrow> session" where
  "after_exception txt s = (case handle_exception txt s of Inl e \<Rightarrow> s | Inr (w, s') \<Rightarrow> s')"

text \<open>
  The \<^verbatim>\<open>try\<close> body after the client has returned (lines 157 to 180): what it draws, the
  session it leaves, and the exception that escapes it, if any.
\<close>

definition show_summary ::
  "pystr \<Rightarrow> pystr \<Rightarrow> session \<Rightarrow> widget list \<times> session \<times> py_error option" where
  "show_summary text_input answer s =
     (let s1 = s\<lparr>request_count := request_count s + 1,
                 history := history s @ [(asc ''user'', preview text_input), (asc ''ai'', answer)]\<rparr>;
          shown = [St_write answer,
                   St_download_button (clipboard @ asc '' Copy Summary'') answer (asc ''summary.txt'')];
          original = int (length (split text_input));
          summ = int (length (split answer))
      in case reduction original summ of
           Inl e \<Rightarrow>
             (case handle_exception (str_of_error e) s1 of
                Inl e' \<Rightarrow> (shown, s1, Some e')
              | Inr (w, s2) \<Rightarrow> (shown @ w, s2, None))
         | Inr r \<Rightarrow> (shown @ [St_metric_int (asc ''Original words'') original,
                               St_metric_int (asc ''Summary words'') summ,
                               St_metric_percent (asc ''Reduction %'') r], s1, None))"

definition generate_summary :: "real \<Rightarrow> options \<Rightarrow> client \<Rightarrow> session \<Rightarrow> outcome" where
  "generate_summary t opts api s =
     (let text_input = input_text s
      in if daily_limit s \<le> request_count s
         then \<lparr>drawn = [St_error (no_entry_sign @ asc '' Daily limit reached'')], requests = [],
               stopped = True, uncaught = None, final = s\<rparr>
         else if strip text_input = []
         then \<lparr>drawn = [St_warning (asc ''Enter text first'')], requests = [],
               stopped = True, uncaught = None, final = s\<rparr>
         else (let req = request t opts text_input;
                   (w, s', e) = (case api req of
                                   Inr answer \<Rightarrow> show_summary text_input answer s
                                 | Inl txt \<Rightarrow>
                                     (case handle_exception txt s of
                                        Inl e' \<Rightarrow> ([], s, Some e')
                                      | Inr (w, s') \<Rightarrow> (w, s', None)))
               in \<lparr>drawn = w, requests = [req], stopped = False, uncaught = e, final = s'\<rparr>))"

subsection \<open>Conversation (lines 199 to 203)\<close>

definition conversation :: "(pystr \<times> pystr) list \<Rightarrow> widget list" where
  "conversation h =
     map (\<lambda>(role, msg). if role = asc ''user'' then St_markdown (green_circle @ asc '' **You:** '' @ msg)
                          else St_markdown (robot_face @ asc '' **AI:** '' @ msg)) h"

subsection \<open>A whole run\<close>

text \<open>
  The text area has the key \<^verbatim>\<open>input_text\<close>: Streamlit stores an edit under that key
  before the run starts.
\<close>

definition text_area :: "pystr option \<Rightarrow> session \<Rightarrow> session" where
  "text_area edit s = (case edit of None \<Rightarrow> s | Some t \<Rightarrow> s\<lparr>input_text := t\<rparr>)"

definition sample_text :: pystr where
  "sample_text =
     asc ''Blockchain technology is a decentralized digital ledger that records ''
     @ asc ''transactions securely across multiple computers. It ensures transparency, ''
     @ asc ''security, and trust without needing intermediaries. Blockchain is used in ''
     @ asc ''cryptocurrency, supply chains, healthcare records, and digital identity.''"

text \<open>The buttons that write to the session (lines 55 and 56, 63 to 69).\<close>

definition press :: "button option \<Rightarrow> session \<Rightarrow> session" where
  "press b s =
     (if b = Some Clear_chat then s\<lparr>history := []\<rparr>
      else if b = Some Load_sample then s\<lparr>input_text := sample_text\<rparr>
      else s)"

text \<open>
  An exception that nothing catches ends the run where it is raised; what was drawn and
  what was written to the session before stays.
\<close>

definition script :: "interaction \<Rightarrow> session option \<Rightarrow> outcome" where
  "script i st =
     (let s0 = text_area (typed i) (daily_reset (today i) st)
      in case sidebar s0 of
           Inl e \<Rightarrow> \<lparr>drawn = [], requests = [], stopped = False, uncaught = Some e, final = s0\<rparr>
         | Inr side \<Rightarrow>
             (let s2 = press (pressed i) s0
              in case temperature (length_choice (chosen i)) of
                   Inl e \<Rightarrow> \<lparr>drawn = side, requests = [], stopped = False, uncaught = Some e,
                              final = s2\<rparr>
                 | Inr t \<Rightarrow>
                     if pressed i = Some Generate_summary
                     then (let r = generate_summary t (chosen i) (gemini i) s2
                           in r\<lparr>drawn := side @ drawn r
                                  @ (if stopped r then []
                                     else case uncaught r of
                                            None \<Rightarrow> conversation (history (final r))
                                          | Some e \<Rightarrow> [])\<rparr>)
                     else \<lparr>drawn = side @ conversation (history s2), requests = [],
                           stopped = False, uncaught = None, final = s2\<rparr>))"

text \<open>A sequence of runs, each starting from the state the one before left.\<close>

fun runs :: "interaction list \<Rightarrow> session option \<Rightarrow> session option" where
  "runs [] st = st"
| "runs (i # is) st = runs is (Some (final (script i st)))"

text \<open>
  A run is a successful summarization when it sent a request and the client answered it;
  a sequence of runs consists of successful summarizations when each run is one, from the
  state the run before left.
\<close>

definition summarized :: "interaction \<Rightarrow> session option \<Rightarrow> bool" where
  "summarized i st =
     (case requests (script i st) of
        [] \<Rightarrow> False
      | req # _ \<Rightarrow> (case gemini i req of Inr answer \<Rightarrow> True | Inl txt \<Rightarrow> False))"

fun all_summarized :: "interaction list \<Rightarrow> session option \<Rightarrow> bool" where
  "all_summarized [] st = True"
| "all_summarized (i # is) st =
     (summarized i st \<and> all_summarized is (Some (final (script i st))))"

subsection \<open>The reported limit, in the words of the specification\<close>

text \<open>
  "The first integer following the token \<^verbatim>\<open>quotaValue\<close>": the text after the first
  occurrence of the token, and in it the first run of decimal digits, taken whole; the
  integer is the number that run spells, \<open>decimal_value\<close>. A sign before the digits is
  not part of the run.
\<close>

fun after_token :: "pystr \<Rightarrow> pystr \<Rightarrow> pystr option" where
  "after_token tok [] = (if tok = [] then Some [] else None)"
| "after_token tok (c # cs) =
     (if prefix tok (c # cs) then Some (drop (length tok) (c # cs)) else after_token tok cs)"

definition first_integer :: "pystr \<Rightarrow> pystr option" where
  "first_integer s =
     (case dropWhile (\<lambda>c. \<not> isdecimal c) s of
        [] \<Rightarrow> None
      | d # ds \<Rightarrow> Some (takeWhile isdecimal (d # ds)))"

definition reported_digits :: "pystr \<Rightarrow> pystr option" where
  "reported_digits txt =
     (case after_token (asc ''quotaValue'') txt of None \<Rightarrow> None | Some rest \<Rightarrow> first_integer rest)"

subsection \<open>Example sessions\<close>

definition balanced_options :: options where
  "balanced_options =
     \<lparr>length_choice = Balanced, max_tokens = 300, language_choice = English,
      format_choice = Paragraph\<rparr>"

text \<open>A client that answers every request with the same summary, and one that always raises.\<close>

definition answering :: "pystr \<Rightarrow> client" where
  "answering answer = (\<lambda>req. Inr answer)"

definition raising :: "pystr \<Rightarrow> client" where
  "raising txt = (\<lambda>req. Inl txt)"

definition busy_session :: session where
  "busy_session =
     \<lparr>day = asc ''2026-01-01'', request_count = 7, daily_limit = 20, history = [],
      input_text = asc ''Blockchain is a ledger.''\<rparr>"

definition exhausted_session :: session where
  "exhausted_session =
     \<lparr>day = asc ''2026-01-01'', request_count = 50, daily_limit = 50, history = [],
      input_text = asc ''   ''\<rparr>"

definition blank_session :: session where
  "blank_session =
     \<lparr>day = asc ''2026-01-01'', request_count = 0, daily_limit = 50, history = [],
      input_text = asc ''   ''\<rparr>"

definition first_summary :: interaction where
  "first_summary =
     \<lparr>today = asc ''2026-01-01'', typed = Some (asc ''Blockchain is a ledger.''),
      pressed = Some Generate_summary,
      chosen = balanced_options\<lparr>length_choice := Very_short\<rparr>,
      gemini = answering (asc ''A ledger.'')\<rparr>"

definition try_again :: interaction where
  "try_again =
     \<lparr>today = asc ''2026-01-01'', typed = Some (asc ''Blockchain is a ledger.''),
      pressed = Some Generate_summary, chosen = balanced_options,
      gemini = answering (asc ''A ledger.'')\<rparr>"

definition clear_chat :: interaction where
  "clear_chat =
     \<lparr>today = asc ''2026-01-01'', typed = None, pressed = Some Clear_chat,
      chosen = balanced_options, gemini = answering (asc ''unused'')\<rparr>"

definition quota_reply :: "pystr \<Rightarrow> interaction" where
  "quota_reply txt =
     \<lparr>today = asc ''2026-01-01'', typed = None, pressed = Some Generate_summary,
      chosen = balanced_options, gemini = raising txt\<rparr>"

definition overdrawn_session :: session where
  "overdrawn_session =
     \<lparr>day = asc ''2026-01-01'', request_count = 2, daily_limit = 1,
      history = [(asc ''user'', preview (asc ''Blockchain is a ledger.'')), (asc ''ai'', asc ''A ledger.''),
                 (asc ''user'', preview (asc ''Blockchain is a ledger.'')), (asc ''ai'', asc ''A ledger.'')],
      input_text = asc ''Blockchain is a ledger.''\<rparr>"

definition next_day :: interaction where
  "next_day = try_again\<lparr>today := asc ''2026-01-02''\<rparr>"


text \<open>A request with a blank text, and a quota error that reports 4301 digits.\<close>

definition blank_request :: interaction where
  "blank_request =
     \<lparr>today = asc ''2026-01-01'', typed = Some (asc ''   ''), pressed = Some Generate_summary,
      chosen = balanced_options, gemini = answering (asc ''unused'')\<rparr>"

definition long_quota_message :: pystr where
  "long_quota_message = asc ''429 quotaValue: '' @ replicate 4301 57"

section \<open>Properties\<close>

subsection \<open>Rounding stays between the neighbouring integers\<close>

lemma round_half_even_nonneg: "0 \<le> x \<Longrightarrow> 0 \<le> round_half_even x"
  by (auto simp: round_half_even_def Let_def)

lemma round_half_even_le:
  assumes "x \<le> of_int n"
  shows "round_half_even x \<le> n"
proof -
  have d: "\<lfloor>x\<rfloor> \<le> n" using assms by (simp add: floor_le_iff)
  show ?thesis
  proof (cases "x - of_int \<lfloor>x\<rfloor> < 1 / 2")
    case True
    then show ?thesis using d by (simp add: round_half_even_def Let_def)
  next
    case False
    then have "of_int \<lfloor>x\<rfloor> < x" by simp
    then have "\<lfloor>x\<rfloor> < n" using assms by (metis floor_less_iff less_le_trans not_le of_int_floor_le order.strict_trans2 of_int_less_iff)
    then show ?thesis by (auto simp: round_half_even_def Let_def)
  qed
qed

lemma floor_log2_le_0: "0 < x \<Longrightarrow> x \<le> 1 \<Longrightarrow> floor_log2 x \<le> 0"
  by (cases "x = 1") (simp_all add: floor_log2_def bit_length.simps)

lemma round53_unit_interval:
  assumes "0 \<le> x" and "x \<le> 1"
  shows "0 \<le> round53 x \<and> round53 x \<le> 1"
proof (cases "x = 0")
  case True
  then show ?thesis by (simp add: round53_def)
next
  case False
  with assms have pos: "0 < x" by simp
  define k where "k = nat (- (floor_log2 \<bar>x\<bar> - 52))"
  have e: "\<not> 0 \<le> floor_log2 \<bar>x\<bar> - 52"
    using floor_log2_le_0 [of x] pos assms by simp
  have r: "round53 x = of_int (round_half_even (x * 2 ^ k)) / 2 ^ k"
    using False e by (simp add: round53_def Let_def k_def)
  have "x * 2 ^ k \<le> of_int (2 ^ k)"
    using assms by (simp add: mult_left_le_one_le)
  then have up: "round_half_even (x * 2 ^ k) \<le> 2 ^ k"
    by (rule round_half_even_le)
  have lo: "0 \<le> round_half_even (x * 2 ^ k)"
    using assms by (intro round_half_even_nonneg) simp
  have "real_of_int (round_half_even (x * 2 ^ k)) \<le> 2 ^ k"
    using up by (metis of_int_le_iff of_int_numeral of_int_power)
  then show ?thesis
    using lo by (simp add: r divide_le_eq_1)
qed

lemma round53_one: "round53 1 = 1"
  by (simp add: round53_def floor_log2_def round_half_even_def bit_length.simps)

lemma round53_100: "round53 100 = 100"
  by (simp add: round53_def floor_log2_def round_half_even_def bit_length.simps)

subsection \<open>Rounding is accurate to half a unit in the last place\<close>

lemma bit_length_bounds:
  "0 < n \<Longrightarrow> 2 ^ (bit_length n - 1) \<le> n \<and> n < 2 ^ bit_length n"
proof (induction n rule: bit_length.induct)
  case (1 n)
  show ?case
  proof (cases "n div 2 = 0")
    case True
    with 1 have "n = 1" by (simp add: div_eq_0_iff)
    then show ?thesis by (simp add: bit_length.simps)
  next
    case False
    with 1 have IH: "2 ^ (bit_length (n div 2) - 1) \<le> n div 2" "n div 2 < 2 ^ bit_length (n div 2)"
      by simp_all
    have b: "bit_length n = Suc (bit_length (n div 2))"
      using 1 by (subst bit_length.simps) simp
    have pos: "0 < bit_length (n div 2)"
      using False by (subst bit_length.simps) simp
    then have "(2::nat) ^ bit_length (n div 2) = 2 * 2 ^ (bit_length (n div 2) - 1)"
      by (cases "bit_length (n div 2)") simp_all
    with IH show ?thesis unfolding b by simp linarith
  qed
qed

lemma floor_log2_lower:
  assumes "0 < x"
  shows "if 0 \<le> floor_log2 x then 2 ^ nat (floor_log2 x) \<le> x
         else 1 / 2 ^ nat (- floor_log2 x) \<le> x"
proof (cases "1 \<le> x")
  case True
  then have n: "0 < nat \<lfloor>x\<rfloor>" by simp
  have fl: "floor_log2 x = int (bit_length (nat \<lfloor>x\<rfloor>)) - 1"
    using True by (simp add: floor_log2_def)
  have bl: "0 < bit_length (nat \<lfloor>x\<rfloor>)"
    using n by (subst bit_length.simps) simp
  then have e: "nat (floor_log2 x) = bit_length (nat \<lfloor>x\<rfloor>) - 1" "0 \<le> floor_log2 x"
    unfolding fl by simp_all
  have "2 ^ (bit_length (nat \<lfloor>x\<rfloor>) - 1) \<le> nat \<lfloor>x\<rfloor>"
    using bit_length_bounds [OF n] by simp
  then have "(2::real) ^ (bit_length (nat \<lfloor>x\<rfloor>) - 1) \<le> real (nat \<lfloor>x\<rfloor>)"
    by (metis of_nat_le_iff of_nat_numeral of_nat_power)
  also have "\<dots> \<le> x" using True by simp
  finally show ?thesis using e by simp
next
  case False
  with assms have y: "1 < 1 / x" by simp
  define m where "m = nat (\<lceil>1 / x\<rceil> - 1)"
  from y have c: "2 \<le> \<lceil>1 / x\<rceil>" by (simp add: le_ceiling_iff)
  then have m: "0 < m" by (simp add: m_def)
  have fl: "floor_log2 x = - int (bit_length m)"
    using False by (simp add: floor_log2_def m_def)
  have bl: "0 < bit_length m"
    using m by (subst bit_length.simps) simp
  have "m < 2 ^ bit_length m" using bit_length_bounds [OF m] by simp
  then have "m + 1 \<le> 2 ^ bit_length m" by simp
  then have "real (m + 1) \<le> 2 ^ bit_length m"
    by (metis of_nat_le_iff of_nat_numeral of_nat_power)
  moreover have "1 / x \<le> real (m + 1)"
  proof -
    have "1 / x \<le> of_int \<lceil>1 / x\<rceil>" by (rule le_of_int_ceiling)
    also have "\<dots> = real (m + 1)"
    proof -
      have "0 \<le> \<lceil>1 / x\<rceil> - 1" using c by linarith
      then have "int m = \<lceil>1 / x\<rceil> - 1" unfolding m_def by (rule nat_0_le)
      then have "int (m + 1) = \<lceil>1 / x\<rceil>" by simp
      then show ?thesis by (metis of_int_of_nat_eq)
    qed
    finally show ?thesis .
  qed
  ultimately have "1 / x \<le> 2 ^ bit_length m" by linarith
  then have "1 / 2 ^ bit_length m \<le> x"
    using assms by (simp add: field_simps)
  then show ?thesis using bl unfolding fl by simp
qed

lemma round_half_even_error: "\<bar>of_int (round_half_even y) - y\<bar> \<le> 1 / 2"
proof -
  define r where "r = y - of_int \<lfloor>y\<rfloor>"
  have r: "0 \<le> r" "r < 1" unfolding r_def by linarith+
  have y: "y = of_int \<lfloor>y\<rfloor> + r" by (simp add: r_def)
  consider "r < 1 / 2" | "1 / 2 < r" | "r = 1 / 2" by linarith
  then show ?thesis
  proof cases
    case 1
    then have "round_half_even y = \<lfloor>y\<rfloor>"
      by (simp add: round_half_even_def Let_def r_def)
    then show ?thesis using 1 r y by simp
  next
    case 2
    then have "round_half_even y = \<lfloor>y\<rfloor> + 1"
      by (simp add: round_half_even_def Let_def r_def)
    then show ?thesis using 2 r y by simp
  next
    case 3
    then have "round_half_even y = \<lfloor>y\<rfloor> \<or> round_half_even y = \<lfloor>y\<rfloor> + 1"
      by (simp add: round_half_even_def Let_def r_def)
    then show ?thesis using 3 y by auto
  qed
qed

lemma round53_error:
  "\<bar>round53 x - x\<bar> \<le> \<bar>x\<bar> / 2 ^ 53"
proof (cases "x = 0")
  case True
  then show ?thesis by (simp add: round53_def)
next
  case False
  then have pos: "0 < \<bar>x\<bar>" by simp
  let ?f = "floor_log2 \<bar>x\<bar>"
  show ?thesis
  proof (cases "0 \<le> ?f - 52")
    case True
    define k where "k = nat (?f - 52)"
    have r: "round53 x = of_int (round_half_even (x / 2 ^ k)) * 2 ^ k"
      using False True by (simp add: round53_def Let_def k_def)
    have "nat ?f = k + 52" using True by (simp add: k_def)
    moreover have "2 ^ nat ?f \<le> \<bar>x\<bar>"
      using floor_log2_lower [OF pos] True by simp
    ultimately have lo: "2 ^ (k + 52) \<le> \<bar>x\<bar>" by simp
    have "round53 x - x = (of_int (round_half_even (x / 2 ^ k)) - x / 2 ^ k) * 2 ^ k"
      unfolding r by (simp add: field_simps)
    then have "\<bar>round53 x - x\<bar> = \<bar>of_int (round_half_even (x / 2 ^ k)) - x / 2 ^ k\<bar> * 2 ^ k"
      by (simp add: abs_mult)
    also have "\<dots> \<le> (1 / 2) * 2 ^ k"
      by (intro mult_right_mono round_half_even_error) simp
    also have "\<dots> = 2 ^ (k + 52) / 2 ^ 53" by (simp add: power_add)
    also have "\<dots> \<le> \<bar>x\<bar> / 2 ^ 53" using lo by (simp add: divide_right_mono)
    finally show ?thesis .
  next
    case neg: False
    define k where "k = nat (- (?f - 52))"
    have r: "round53 x = of_int (round_half_even (x * 2 ^ k)) / 2 ^ k"
      using False neg by (simp add: round53_def Let_def k_def)
    have lo: "2 ^ 52 \<le> \<bar>x\<bar> * 2 ^ k"
    proof (cases "0 \<le> ?f")
      case True
      then have "2 ^ nat ?f \<le> \<bar>x\<bar>" using floor_log2_lower [OF pos] by simp
      then have ineq: "2 ^ nat ?f * 2 ^ k \<le> \<bar>x\<bar> * 2 ^ k"
        by (intro mult_right_mono) simp_all
      have "nat ?f + k = 52" using True neg by (simp add: k_def)
      then have eq: "(2::real) ^ 52 = 2 ^ nat ?f * 2 ^ k" by (metis power_add)
      show ?thesis unfolding eq by (rule ineq)
    next
      case False
      then have "1 / 2 ^ nat (- ?f) \<le> \<bar>x\<bar>" using floor_log2_lower [OF pos] by simp
      then have ineq: "1 / 2 ^ nat (- ?f) * 2 ^ k \<le> \<bar>x\<bar> * 2 ^ k"
        by (intro mult_right_mono) simp_all
      have "k = nat (- ?f) + 52" using False by (simp add: k_def)
      then have "(2::real) ^ k = 2 ^ nat (- ?f) * 2 ^ 52" by (simp only: power_add)
      then have eq: "(2::real) ^ 52 = 1 / 2 ^ nat (- ?f) * 2 ^ k" by simp
      show ?thesis unfolding eq by (rule ineq)
    qed
    have "round53 x - x = (of_int (round_half_even (x * 2 ^ k)) - x * 2 ^ k) / 2 ^ k"
      unfolding r by (simp add: field_simps)
    then have "\<bar>round53 x - x\<bar> = \<bar>of_int (round_half_even (x * 2 ^ k)) - x * 2 ^ k\<bar> / 2 ^ k"
      by (simp add: abs_divide)
    also have "\<dots> \<le> (1 / 2) / 2 ^ k"
      by (intro divide_right_mono round_half_even_error) simp
    also have "\<dots> \<le> \<bar>x\<bar> / 2 ^ 53" using lo by (simp add: field_simps)
    finally show ?thesis .
  qed
qed

subsection \<open>Literals and digits\<close>

lemma asc_simps:
  "asc [] = []"
  "asc (c # cs) = of_char c # asc cs"
  by (simp_all add: asc_def)

lemma length_asc [simp]: "length (asc s) = length s"
  by (simp add: asc_def)

text \<open>Below U+0660 the decimal digits are the ASCII ones.\<close>

lemma decimal_digit_ascii:
  "c < 1632 \<Longrightarrow> decimal_digit c = (if 48 \<le> c \<and> c \<le> 57 then Some (c - 48) else None)"
  by (simp add: decimal_digit_def decimal_zeros_def)

lemma isdecimal_ascii: "c < 1632 \<Longrightarrow> isdecimal c \<longleftrightarrow> 48 \<le> c \<and> c \<le> 57"
  by (simp add: isdecimal_def decimal_digit_ascii)

lemma digit_val_ascii: "48 \<le> c \<Longrightarrow> c \<le> 57 \<Longrightarrow> digit_val c = c - 48"
  by (simp add: digit_val_def decimal_digit_ascii)

subsection \<open>The sidebar\<close>

lemma progress_value_total: "\<exists>v. progress_value s = Inr v"
  by (simp add: progress_value_def py_truediv_def Let_def)

lemma progress_value_in_range:
  assumes "0 \<le> request_count s" and "request_count s \<le> daily_limit s"
  shows "\<exists>v. progress_value s = Inr v \<and> 0 \<le> v \<and> v \<le> 1"
proof (cases "daily_limit s = 0")
  case True
  then show ?thesis by (simp add: progress_value_def)
next
  case False
  with assms have "0 \<le> real_of_int (request_count s) / real_of_int (daily_limit s)"
    and "real_of_int (request_count s) / real_of_int (daily_limit s) \<le> 1"
    by (simp_all add: divide_le_eq_1)
  then show ?thesis
    using False round53_unit_interval by (simp add: progress_value_def py_truediv_def)
qed

lemma st_progress_in_range: "0 \<le> v \<Longrightarrow> v \<le> 1 \<Longrightarrow> st_progress v = Inr (St_progress v)"
  by (simp add: st_progress_def check_float_between_def Let_def)

lemma round53_two: "round53 2 = 2"
  by (simp add: round53_def floor_log2_def round_half_even_def bit_length.simps)

text \<open>The float \<^verbatim>\<open>1e-9\<close>, and the value 2.0, which is at neither end of the range.\<close>

lemma float_literal_tolerance:
  "float_literal (1 / 10 ^ 9) = 4835703278458517 / 2 ^ 82"
  by (simp add: float_literal_def round53_def floor_log2_def round_half_even_def
        bit_length.simps)

lemma not_isclose_two:
  "\<not> isclose 2 0 (4835703278458517 / 2 ^ 82) (4835703278458517 / 2 ^ 82)"
  "\<not> isclose 2 1 (4835703278458517 / 2 ^ 82) (4835703278458517 / 2 ^ 82)"
  by (simp_all add: isclose_def round53_def floor_log2_def round_half_even_def
        bit_length.simps Let_def)

lemma check_float_between_two: "\<not> check_float_between 2"
  unfolding check_float_between_def Let_def float_literal_tolerance
  using not_isclose_two by simp

lemma st_progress_two:
  "st_progress 2 = Inl (StreamlitAPIException (asc ''Progress Value has invalid value [0.0, 1.0]''))"
  by (simp add: st_progress_def check_float_between_two)

lemma sidebar_in_range:
  assumes "0 \<le> request_count s" and "request_count s \<le> daily_limit s"
  shows "\<exists>side. sidebar s = Inr side"
  using progress_value_in_range [OF assms] by (auto simp: sidebar_def st_progress_in_range)

lemma sidebar_at_limit:
  assumes "request_count s = daily_limit s"
  shows "\<exists>side. sidebar s = Inr side"
  using assms
  by (cases "daily_limit s = 0")
     (auto simp: sidebar_def st_progress_in_range progress_value_def py_truediv_def round53_one)

lemma sidebar_no_limit:
  assumes "daily_limit s = 0"
  shows "\<exists>side. sidebar s = Inr side"
  using assms by (simp add: sidebar_def st_progress_in_range progress_value_def)

subsection \<open>The table of temperatures\<close>

lemma temperature_values:
  "temperature Very_short = Inr (float_literal (1 / 10))"
  "temperature Short = Inr (float_literal (3 / 10))"
  "temperature Balanced = Inr (float_literal (5 / 10))"
  "temperature Detailed = Inr (float_literal (7 / 10))"
  "temperature Very_detailed = Inr (float_literal (9 / 10))"
  by (simp_all add: temperature_def temp_map_def asc_def)

lemma temperature_total: "\<exists>t. temperature l = Inr t"
  by (cases l) (simp_all add: temperature_values)

text \<open>The five floats, as the fractions they are.\<close>

lemma float_literal_values:
  "float_literal (1 / 10) = 3602879701896397 / 36028797018963968"
  "float_literal (3 / 10) = 5404319552844595 / 18014398509481984"
  "float_literal (5 / 10) = 1 / 2"
  "float_literal (7 / 10) = 3152519739159347 / 4503599627370496"
  "float_literal (9 / 10) = 8106479329266893 / 9007199254740992"
  by (simp_all add: float_literal_def round53_def floor_log2_def round_half_even_def
        bit_length.simps)

subsection \<open>The branches of the handler\<close>

lemma reduction_total: "\<exists>r. reduction original summ = Inr r"
  by (simp add: reduction_def py_truediv_def)

lemma generate_summary_rejected:
  assumes "daily_limit s \<le> request_count s \<or> strip (input_text s) = []"
  shows "generate_summary t opts api s =
         \<lparr>drawn = [if daily_limit s \<le> request_count s
                    then St_error (no_entry_sign @ asc '' Daily limit reached'')
                    else St_warning (asc ''Enter text first'')],
          requests = [], stopped = True, uncaught = None, final = s\<rparr>"
  using assms by (auto simp: generate_summary_def Let_def)

lemma after_exception_fields [simp]:
  "day (after_exception txt s) = day s"
  "request_count (after_exception txt s) = request_count s"
  "history (after_exception txt s) = history s"
  "input_text (after_exception txt s) = input_text s"
  by (simp_all add: after_exception_def handle_exception_def
        split: option.splits sum.splits)

lemma after_exception_state:
  "after_exception txt s = s\<lparr>daily_limit := daily_limit (after_exception txt s)\<rparr>"
  by (simp add: after_exception_def handle_exception_def
        split: option.splits sum.splits)

lemma after_exception_limit:
  "daily_limit (after_exception txt s) =
     (if str_in (asc ''RESOURCE_EXHAUSTED'') txt \<or> str_in (asc ''429'') txt
      then (case re_search txt of
              Some g \<Rightarrow> if length g \<le> 4300 then decimal_value g else daily_limit s
            | None \<Rightarrow> daily_limit s)
      else daily_limit s)"
  by (simp add: after_exception_def handle_exception_def py_int_def
        split: option.splits sum.splits)

lemma show_summary_state:
  "snd (show_summary text_input answer s) =
     (s\<lparr>request_count := request_count s + 1,
        history := history s @ [(asc ''user'', preview text_input), (asc ''ai'', answer)]\<rparr>,
      None)"
  using reduction_total [of "int (length (split text_input))" "int (length (split answer))"]
  by (auto simp: show_summary_def Let_def)

lemma final_generate_summary:
  "final (generate_summary t opts api s) =
     (if daily_limit s \<le> request_count s \<or> strip (input_text s) = [] then s
      else case api (request t opts (input_text s)) of
             Inr answer \<Rightarrow> fst (snd (show_summary (input_text s) answer s))
           | Inl txt \<Rightarrow> after_exception txt s)"
  by (auto simp: generate_summary_def after_exception_def Let_def split: sum.splits prod.splits)

lemma requests_generate_summary:
  "requests (generate_summary t opts api s) =
     (if daily_limit s \<le> request_count s \<or> strip (input_text s) = [] then []
      else [request t opts (input_text s)])"
  by (auto simp: generate_summary_def Let_def split: sum.splits prod.splits)

lemma input_text_final_generate_summary [simp]:
  "input_text (final (generate_summary t opts api s)) = input_text s"
  by (simp add: final_generate_summary show_summary_state split: sum.splits)

lemma day_final_generate_summary [simp]:
  "day (final (generate_summary t opts api s)) = day s"
  by (simp add: final_generate_summary show_summary_state split: sum.splits)

subsection \<open>A run in terms of the handler\<close>

lemma script_sidebar_raises:
  assumes "sidebar (text_area (typed i) (daily_reset (today i) st)) = Inl e"
  shows "script i st =
           \<lparr>drawn = [], requests = [], stopped = False, uncaught = Some e,
            final = text_area (typed i) (daily_reset (today i) st)\<rparr>"
  using assms by (simp add: script_def Let_def)

lemma script_sidebar_drawn:
  assumes "sidebar (text_area (typed i) (daily_reset (today i) st)) = Inr side"
  obtains t where
    "temperature (length_choice (chosen i)) = Inr t"
    "script i st =
       (let s2 = press (pressed i) (text_area (typed i) (daily_reset (today i) st))
        in if pressed i = Some Generate_summary
           then (let r = generate_summary t (chosen i) (gemini i) s2
                 in r\<lparr>drawn := side @ drawn r
                        @ (if stopped r then []
                           else case uncaught r of
                                  None \<Rightarrow> conversation (history (final r))
                                | Some e \<Rightarrow> [])\<rparr>)
           else \<lparr>drawn = side @ conversation (history s2), requests = [], stopped = False,
                 uncaught = None, final = s2\<rparr>)"
proof -
  obtain t where t: "temperature (length_choice (chosen i)) = Inr t"
    using temperature_total by blast
  show thesis
    by (rule that [OF t]) (simp add: script_def t assms Let_def)
qed

lemma final_script:
  "final (script i st) =
     (let s0 = text_area (typed i) (daily_reset (today i) st)
      in case sidebar s0 of
           Inl e \<Rightarrow> s0
         | Inr side \<Rightarrow>
             if pressed i = Some Generate_summary
             then final (generate_summary (projr (temperature (length_choice (chosen i))))
                          (chosen i) (gemini i) (press (pressed i) s0))
             else press (pressed i) s0)"
proof (cases "sidebar (text_area (typed i) (daily_reset (today i) st))")
  case (Inl e)
  then show ?thesis by (simp add: script_sidebar_raises)
next
  case (Inr side)
  then show ?thesis by (rule script_sidebar_drawn) (simp add: Inr Let_def)
qed

lemma requests_script:
  "requests (script i st) =
     (let s0 = text_area (typed i) (daily_reset (today i) st)
      in case sidebar s0 of
           Inl e \<Rightarrow> []
         | Inr side \<Rightarrow>
             if pressed i = Some Generate_summary
             then requests (generate_summary (projr (temperature (length_choice (chosen i))))
                             (chosen i) (gemini i) (press (pressed i) s0))
             else [])"
proof (cases "sidebar (text_area (typed i) (daily_reset (today i) st))")
  case (Inl e)
  then show ?thesis by (simp add: script_sidebar_raises)
next
  case (Inr side)
  then show ?thesis by (rule script_sidebar_drawn) (simp add: Inr Let_def)
qed

lemma text_area_quota [simp]:
  "day (text_area e s) = day s"
  "request_count (text_area e s) = request_count s"
  "daily_limit (text_area e s) = daily_limit s"
  "history (text_area e s) = history s"
  by (simp_all add: text_area_def split: option.splits)

lemma press_quota [simp]:
  "day (press b s) = day s"
  "request_count (press b s) = request_count s"
  "daily_limit (press b s) = daily_limit s"
  by (simp_all add: press_def)

lemma press_generate [simp]: "press (Some Generate_summary) s = s"
  by (simp add: press_def)

lemma sidebar_text_area [simp]: "sidebar (text_area e s) = sidebar s"
  by (simp add: sidebar_def progress_value_def remaining_def split: sum.splits)

lemma daily_reset_same_day [simp]: "day s = d \<Longrightarrow> daily_reset d (Some s) = s"
  by (simp add: daily_reset_def)

lemma script_new_day:
  assumes "day s \<noteq> today i"
  shows "script i (Some s) = script i (Some (s\<lparr>day := today i, request_count := 0\<rparr>))"
  using assms by (simp add: script_def daily_reset_def)

lemma final_script_in_range:
  assumes "0 \<le> request_count (daily_reset (today i) st)"
    and "request_count (daily_reset (today i) st) \<le> daily_limit (daily_reset (today i) st)"
  shows "final (script i st) =
     (let s0 = text_area (typed i) (daily_reset (today i) st)
      in if pressed i = Some Generate_summary
         then final (generate_summary (projr (temperature (length_choice (chosen i))))
                      (chosen i) (gemini i) (press (pressed i) s0))
         else press (pressed i) s0)"
proof -
  obtain side where "sidebar (text_area (typed i) (daily_reset (today i) st)) = Inr side"
    using sidebar_in_range [of "daily_reset (today i) st"] assms by auto
  then show ?thesis by (simp add: final_script Let_def)
qed

lemma requests_script_in_range:
  assumes "0 \<le> request_count (daily_reset (today i) st)"
    and "request_count (daily_reset (today i) st) \<le> daily_limit (daily_reset (today i) st)"
  shows "requests (script i st) =
     (let s0 = text_area (typed i) (daily_reset (today i) st)
      in if pressed i = Some Generate_summary
         then requests (generate_summary (projr (temperature (length_choice (chosen i))))
                      (chosen i) (gemini i) (press (pressed i) s0))
         else [])"
proof -
  obtain side where "sidebar (text_area (typed i) (daily_reset (today i) st)) = Inr side"
    using sidebar_in_range [of "daily_reset (today i) st"] assms by auto
  then show ?thesis by (simp add: requests_script Let_def)
qed

subsection \<open>The daily reset\<close>

text \<open>
  Claim C4. When the stored \<open>day\<close> differs from the date of the run, the reset block sets
  \<open>request_count\<close> to 0 and \<open>day\<close> to the date and leaves \<open>daily_limit\<close> (and
  everything else) as it was; the whole run then behaves as on the reset state.
\<close>

theorem daily_reset_new_day:
  assumes "day s \<noteq> d"
  shows "request_count (daily_reset d (Some s)) = 0
       \<and> day (daily_reset d (Some s)) = d
       \<and> daily_limit (daily_reset d (Some s)) = daily_limit s
       \<and> daily_reset d (Some s) = s\<lparr>day := d, request_count := 0\<rparr>
       \<and> (\<forall>i. today i = d \<longrightarrow>
            script i (Some s) = script i (Some (s\<lparr>day := d, request_count := 0\<rparr>)))"
  using assms script_new_day [of s] by (auto simp: daily_reset_def)

theorem daily_reset_new_day_witness:
  "day busy_session \<noteq> asc ''2026-01-02''
   \<and> request_count busy_session = 7
   \<and> request_count (daily_reset (asc ''2026-01-02'') (Some busy_session)) = 0
   \<and> day (daily_reset (asc ''2026-01-02'') (Some busy_session)) = asc ''2026-01-02''
   \<and> daily_limit (daily_reset (asc ''2026-01-02'') (Some busy_session)) = 20"
  using daily_reset_new_day [of busy_session "asc ''2026-01-02''"]
  by (simp add: busy_session_def asc_def)

subsection \<open>Rejected requests\<close>

lemma script_exhausted:
  assumes "daily_limit s \<le> request_count s" and "today i = day s"
  shows "day (final (script i (Some s))) = day s
       \<and> request_count (final (script i (Some s))) = request_count s
       \<and> daily_limit (final (script i (Some s))) = daily_limit s"
  using assms by (simp add: final_script final_generate_summary Let_def split: sum.splits)

lemma runs_exhausted:
  assumes "daily_limit s \<le> request_count s" and "\<forall>j\<in>set js. today j = day s"
  shows "\<exists>s'. runs js (Some s) = Some s' \<and> day s' = day s
              \<and> request_count s' = request_count s \<and> daily_limit s' = daily_limit s"
  using assms
proof (induction js arbitrary: s)
  case Nil
  then show ?case by simp
next
  case (Cons j js)
  let ?s1 = "final (script j (Some s))"
  have step: "day ?s1 = day s \<and> request_count ?s1 = request_count s
              \<and> daily_limit ?s1 = daily_limit s"
    using Cons.prems by (intro script_exhausted) auto
  then have "daily_limit ?s1 \<le> request_count ?s1" and "\<forall>k\<in>set js. today k = day ?s1"
    using Cons.prems by auto
  from Cons.IH [OF this] step show ?case by auto
qed

text \<open>
  A request made when the quota is used up or the text is blank, in a run whose sidebar
  is drawn: the run shows the reason after the sidebar and stops; it sends nothing and
  writes nothing but the edit of the text area.
\<close>

lemma script_rejected:
  assumes "pressed i = Some Generate_summary"
    and "s0 = text_area (typed i) (daily_reset (today i) st)"
    and "sidebar s0 = Inr side"
    and "daily_limit s0 \<le> request_count s0 \<or> strip (input_text s0) = []"
  shows "script i st =
           \<lparr>drawn = side @ [if daily_limit s0 \<le> request_count s0
                             then St_error (no_entry_sign @ asc '' Daily limit reached'')
                             else St_warning (asc ''Enter text first'')],
            requests = [], stopped = True, uncaught = None, final = s0\<rparr>"
proof -
  have sb: "sidebar (text_area (typed i) (daily_reset (today i) st)) = Inr side"
    using assms(2,3) by simp
  have gs: "generate_summary t (chosen i) (gemini i) s0 =
         \<lparr>drawn = [if daily_limit s0 \<le> request_count s0
                    then St_error (no_entry_sign @ asc '' Daily limit reached'')
                    else St_warning (asc ''Enter text first'')],
          requests = [], stopped = True, uncaught = None, final = s0\<rparr>" for t
    using assms(4) by (rule generate_summary_rejected)
  from sb show ?thesis
  proof (rule script_sidebar_drawn)
    fix t
    assume "script i st =
       (let s2 = press (pressed i) (text_area (typed i) (daily_reset (today i) st))
        in if pressed i = Some Generate_summary
           then (let r = generate_summary t (chosen i) (gemini i) s2
                 in r\<lparr>drawn := side @ drawn r
                        @ (if stopped r then []
                           else case uncaught r of
                                  None \<Rightarrow> conversation (history (final r))
                                | Some e \<Rightarrow> [])\<rparr>)
           else \<lparr>drawn = side @ conversation (history s2), requests = [], stopped = False,
                 uncaught = None, final = s2\<rparr>)"
    then show ?thesis
      unfolding assms(2) [symmetric] by (simp add: assms(1) gs Let_def)
  qed
qed

text \<open>
  Whether the sidebar is drawn or not, such a run sends nothing to the client and leaves
  the counter, the limit and the history as they were.
\<close>

lemma script_rejected_state:
  assumes "pressed i = Some Generate_summary"
    and "s0 = text_area (typed i) (daily_reset (today i) st)"
    and "daily_limit s0 \<le> request_count s0 \<or> strip (input_text s0) = []"
  shows "requests (script i st) = [] \<and> final (script i st) = s0"
  using assms
  by (auto simp: requests_script final_script requests_generate_summary
        final_generate_summary Let_def split: sum.splits)

text \<open>
  When the counter is at the limit, or the limit is 0, the sidebar is drawn: a request is
  then answered with the error of the quota, also when the text is blank, and after any
  sequence of runs on the same day.
\<close>

lemma script_at_limit:
  assumes "pressed i = Some Generate_summary" and "today i = day s"
    and "daily_limit s \<le> request_count s"
    and "request_count s = daily_limit s \<or> daily_limit s = 0"
  shows "\<exists>side. sidebar s = Inr side \<and>
           script i (Some s) =
             \<lparr>drawn = side @ [St_error (no_entry_sign @ asc '' Daily limit reached'')],
              requests = [], stopped = True, uncaught = None, final = text_area (typed i) s\<rparr>"
proof -
  obtain side where side: "sidebar s = Inr side"
    using sidebar_at_limit [of s] sidebar_no_limit [of s] assms(4) by blast
  have "script i (Some s) =
           \<lparr>drawn = side @ [if daily_limit (text_area (typed i) s) \<le> request_count (text_area (typed i) s)
                             then St_error (no_entry_sign @ asc '' Daily limit reached'')
                             else St_warning (asc ''Enter text first'')],
            requests = [], stopped = True, uncaught = None, final = text_area (typed i) s\<rparr>"
    using assms side by (intro script_rejected) simp_all
  with side assms(3) show ?thesis by simp
qed

lemma runs_at_limit:
  assumes "request_count s = daily_limit s \<or> (daily_limit s = 0 \<and> 0 \<le> request_count s)"
    and "\<forall>j\<in>set js. today j = day s"
    and "today i = day s" and "pressed i = Some Generate_summary"
  shows "\<exists>s' side. runs js (Some s) = Some s' \<and> sidebar s' = Inr side
         \<and> request_count s' = request_count s \<and> daily_limit s' = daily_limit s
         \<and> script i (Some s') =
             \<lparr>drawn = side @ [St_error (no_entry_sign @ asc '' Daily limit reached'')],
              requests = [], stopped = True, uncaught = None, final = text_area (typed i) s'\<rparr>"
proof -
  from assms(1) have le: "daily_limit s \<le> request_count s" by auto
  then obtain s' where s': "runs js (Some s) = Some s'" "day s' = day s"
      "request_count s' = request_count s" "daily_limit s' = daily_limit s"
    using runs_exhausted [of s js] assms(2) by auto
  with assms le have "pressed i = Some Generate_summary" "today i = day s'"
    "daily_limit s' \<le> request_count s'"
    "request_count s' = daily_limit s' \<or> daily_limit s' = 0"
    by auto
  from script_at_limit [OF this] s' show ?thesis by auto
qed

subsection \<open>The usage display\<close>

text \<open>
  The guards of the sidebar: the quotient is never a division by zero, a limit of 0 gives
  the value 0, \<open>remaining\<close> is never negative, and the sidebar is drawn whenever
  \<open>0 \<le> request_count \<le> daily_limit\<close>.
\<close>

lemma usage_display_guards:
  "(\<exists>v. progress_value s = Inr v)
   \<and> (daily_limit s = 0 \<longrightarrow> progress_value s = Inr 0 \<and> (\<exists>side. sidebar s = Inr side))
   \<and> remaining s = max 0 (daily_limit s - request_count s)
   \<and> 0 \<le> remaining s
   \<and> (0 \<le> request_count s \<and> request_count s \<le> daily_limit s \<longrightarrow> (\<exists>side. sidebar s = Inr side))"
  using progress_value_total [of s] sidebar_in_range [of s] sidebar_no_limit [of s]
  by (auto simp: remaining_def progress_value_def)

lemma example_overdrawn:
  "runs [first_summary, try_again, quota_reply (asc ''429 RESOURCE_EXHAUSTED quotaValue: 1'')] None
     = Some overdrawn_session"
  by (simp add: final_script_in_range final_generate_summary show_summary_state
        after_exception_def handle_exception_def py_int_def
        first_summary_def try_again_def quota_reply_def answering_def
        raising_def text_area_def daily_reset_def strip_def isspace_def isdecimal_ascii
        match_here_def decimal_value_def digit_val_ascii overdrawn_session_def Let_def asc_def)

lemma sidebar_overdrawn:
  "progress_value overdrawn_session = Inr 2"
  "sidebar overdrawn_session
     = Inl (StreamlitAPIException (asc ''Progress Value has invalid value [0.0, 1.0]''))"
proof -
  show pv: "progress_value overdrawn_session = Inr 2"
    by (simp add: progress_value_def overdrawn_session_def py_truediv_def round53_two)
  then show "sidebar overdrawn_session
     = Inl (StreamlitAPIException (asc ''Progress Value has invalid value [0.0, 1.0]''))"
    by (simp add: sidebar_def st_progress_two)
qed

lemma script_overdrawn:
  assumes "today i = asc ''2026-01-01''"
  shows "script i (Some overdrawn_session)
       = \<lparr>drawn = [], requests = [], stopped = False,
          uncaught = Some (StreamlitAPIException (asc ''Progress Value has invalid value [0.0, 1.0]'')),
          final = text_area (typed i) overdrawn_session\<rparr>"
proof -
  have d: "daily_reset (today i) (Some overdrawn_session) = overdrawn_session"
    using assms by (simp add: overdrawn_session_def)
  show ?thesis
    by (rule script_sidebar_raises [of i "Some overdrawn_session", unfolded d])
       (simp add: sidebar_overdrawn)
qed

lemma sidebar_exhausted:
  "sidebar exhausted_session
     = Inr [St_progress 1, St_write (asc ''Used: **50**''), St_write (asc ''Remaining: **0**'')]"
  by (simp add: sidebar_def progress_value_def exhausted_session_def py_truediv_def round53_one
        st_progress_in_range remaining_def str_int_def str_nat.simps digit_char_def asc_def)

text \<open>
  Claim C10. The usage display is not total on the reachable states. Two summaries and
  then a quota error that reports the limit 1 leave \<open>request_count = 2\<close> above
  \<open>daily_limit = 1\<close>. There \<open>remaining\<close> is clamped to 0, but the quotient 2.0 is handed
  to \<^verbatim>\<open>st.progress\<close> as it is, which raises: the next run, whatever the user does, ends in
  the sidebar with that exception.
\<close>

theorem usage_display_raises:
  "runs [first_summary, try_again, quota_reply (asc ''429 RESOURCE_EXHAUSTED quotaValue: 1'')] None
     = Some overdrawn_session
   \<and> daily_limit overdrawn_session < request_count overdrawn_session
   \<and> remaining overdrawn_session = 0
   \<and> progress_value overdrawn_session = Inr 2
   \<and> sidebar overdrawn_session
       = Inl (StreamlitAPIException (asc ''Progress Value has invalid value [0.0, 1.0]''))
   \<and> script clear_chat (Some overdrawn_session)
       = \<lparr>drawn = [], requests = [], stopped = False,
          uncaught = Some (StreamlitAPIException (asc ''Progress Value has invalid value [0.0, 1.0]'')),
          final = overdrawn_session\<rparr>"
proof -
  have "script clear_chat (Some overdrawn_session)
       = \<lparr>drawn = [], requests = [], stopped = False,
          uncaught = Some (StreamlitAPIException (asc ''Progress Value has invalid value [0.0, 1.0]'')),
          final = overdrawn_session\<rparr>"
    using script_overdrawn [of clear_chat] by (simp add: clear_chat_def text_area_def)
  then show ?thesis
    using sidebar_overdrawn example_overdrawn by (simp add: remaining_def overdrawn_session_def)
qed

subsection \<open>Rejected requests, from the sidebar on\<close>

text \<open>
  Claim C3. A request made when \<open>daily_limit \<le> request_count\<close> is not always rejected with
  the error of the quota. In \<open>overdrawn_session\<close>, where the counter is 2 and the limit 1,
  the handler alone would show "Daily limit reached" and stop; but the run of the script
  never reaches the handler: it ends in the sidebar with the exception of
  \<^verbatim>\<open>st.progress\<close>, shows nothing and does not stop by \<^verbatim>\<open>st.stop()\<close>. Nothing is sent and
  the session is as before.
\<close>

theorem request_above_limit_ends_in_sidebar:
  "runs [first_summary, try_again, quota_reply (asc ''429 RESOURCE_EXHAUSTED quotaValue: 1'')] None
     = Some overdrawn_session
   \<and> today try_again = day overdrawn_session
   \<and> pressed try_again = Some Generate_summary
   \<and> daily_limit overdrawn_session \<le> request_count overdrawn_session
   \<and> generate_summary (float_literal (5 / 10)) (chosen try_again) (gemini try_again)
        overdrawn_session
       = \<lparr>drawn = [St_error (no_entry_sign @ asc '' Daily limit reached'')], requests = [],
          stopped = True, uncaught = None, final = overdrawn_session\<rparr>
   \<and> script try_again (Some overdrawn_session)
       = \<lparr>drawn = [], requests = [], stopped = False,
          uncaught = Some (StreamlitAPIException (asc ''Progress Value has invalid value [0.0, 1.0]'')),
          final = overdrawn_session\<rparr>"
proof -
  have "script try_again (Some overdrawn_session)
       = \<lparr>drawn = [], requests = [], stopped = False,
          uncaught = Some (StreamlitAPIException (asc ''Progress Value has invalid value [0.0, 1.0]'')),
          final = overdrawn_session\<rparr>"
    using script_overdrawn [of try_again]
    by (simp add: try_again_def text_area_def overdrawn_session_def)
  moreover have "generate_summary (float_literal (5 / 10)) (chosen try_again) (gemini try_again)
        overdrawn_session
       = \<lparr>drawn = [St_error (no_entry_sign @ asc '' Daily limit reached'')], requests = [],
          stopped = True, uncaught = None, final = overdrawn_session\<rparr>"
  proof -
    have "daily_limit overdrawn_session \<le> request_count overdrawn_session"
      by (simp add: overdrawn_session_def)
    then show ?thesis by (simp add: generate_summary_rejected)
  qed
  ultimately show ?thesis
    using example_overdrawn by (simp add: try_again_def overdrawn_session_def)
qed

subsection \<open>Order of the two checks\<close>

text \<open>
  Claim C9. With the quota used up and a blank text, what the user is shown is not always
  "Daily limit reached". When the counter is at the limit (\<open>exhausted_session\<close>) the run
  shows that error after the sidebar, and not the warning of the empty text. When the
  counter is above the limit (\<open>overdrawn_session\<close>) the run shows neither: it ends in
  the sidebar with the exception of \<^verbatim>\<open>st.progress\<close>, before the two checks.
\<close>

theorem blank_request_above_limit_ends_in_sidebar:
  "strip (asc ''   '') = []
   \<and> typed blank_request = Some (asc ''   '')
   \<and> pressed blank_request = Some Generate_summary
   \<and> request_count exhausted_session = daily_limit exhausted_session
   \<and> script blank_request (Some exhausted_session)
       = \<lparr>drawn = [St_progress 1, St_write (asc ''Used: **50**''),
                   St_write (asc ''Remaining: **0**''),
                   St_error (no_entry_sign @ asc '' Daily limit reached'')],
          requests = [], stopped = True, uncaught = None, final = exhausted_session\<rparr>
   \<and> runs [first_summary, try_again, quota_reply (asc ''429 RESOURCE_EXHAUSTED quotaValue: 1'')] None
       = Some overdrawn_session
   \<and> daily_limit overdrawn_session < request_count overdrawn_session
   \<and> script blank_request (Some overdrawn_session)
       = \<lparr>drawn = [], requests = [], stopped = False,
          uncaught = Some (StreamlitAPIException (asc ''Progress Value has invalid value [0.0, 1.0]'')),
          final = overdrawn_session\<lparr>input_text := asc ''   ''\<rparr>\<rparr>"
proof -
  have blank: "strip (asc ''   '') = []"
    by (simp add: strip_def isspace_def asc_def)
  have s0: "text_area (typed blank_request) (daily_reset (today blank_request) (Some exhausted_session))
      = exhausted_session"
    by (simp add: blank_request_def exhausted_session_def text_area_def daily_reset_def)
  have "script blank_request (Some exhausted_session)
       = \<lparr>drawn = [St_progress 1, St_write (asc ''Used: **50**''),
                   St_write (asc ''Remaining: **0**'')]
                  @ [if daily_limit exhausted_session \<le> request_count exhausted_session
                     then St_error (no_entry_sign @ asc '' Daily limit reached'')
                     else St_warning (asc ''Enter text first'')],
          requests = [], stopped = True, uncaught = None, final = exhausted_session\<rparr>"
    by (rule script_rejected)
       (simp_all add: s0 sidebar_exhausted, simp_all add: blank_request_def exhausted_session_def)
  then have 1: "script blank_request (Some exhausted_session)
       = \<lparr>drawn = [St_progress 1, St_write (asc ''Used: **50**''),
                   St_write (asc ''Remaining: **0**''),
                   St_error (no_entry_sign @ asc '' Daily limit reached'')],
          requests = [], stopped = True, uncaught = None, final = exhausted_session\<rparr>"
    by (simp add: exhausted_session_def)
  have 2: "script blank_request (Some overdrawn_session)
       = \<lparr>drawn = [], requests = [], stopped = False,
          uncaught = Some (StreamlitAPIException (asc ''Progress Value has invalid value [0.0, 1.0]'')),
          final = overdrawn_session\<lparr>input_text := asc ''   ''\<rparr>\<rparr>"
    using script_overdrawn [of blank_request] by (simp add: blank_request_def text_area_def)
  show ?thesis
    using blank 1 2 example_overdrawn
    by (simp add: blank_request_def) (simp add: exhausted_session_def overdrawn_session_def)
qed

subsection \<open>A call that fails\<close>

text \<open>
  Claim C2. When the handler calls the client and the call raises, \<open>request_count\<close> and
  \<open>history\<close> are as before; nothing but \<open>daily_limit\<close> can differ, and it differs only
  when the text of the exception is that of a quota error and the search for
  \<^verbatim>\<open>quotaValue\<close> finds digits, whose value it then is.
\<close>

theorem failed_call_keeps_count_and_history:
  assumes "requests (generate_summary t opts api s) = [req]" and "api req = Inl txt"
  shows "request_count (final (generate_summary t opts api s)) = request_count s
       \<and> history (final (generate_summary t opts api s)) = history s
       \<and> length (history (final (generate_summary t opts api s))) = length (history s)
       \<and> final (generate_summary t opts api s)
           = s\<lparr>daily_limit := daily_limit (final (generate_summary t opts api s))\<rparr>
       \<and> (daily_limit (final (generate_summary t opts api s)) \<noteq> daily_limit s \<longrightarrow>
            (str_in (asc ''RESOURCE_EXHAUSTED'') txt \<or> str_in (asc ''429'') txt)
            \<and> (\<exists>g. re_search txt = Some g
                 \<and> daily_limit (final (generate_summary t opts api s)) = decimal_value g))"
proof -
  from assms(1) have ok: "\<not> (daily_limit s \<le> request_count s \<or> strip (input_text s) = [])"
    and req: "req = request t opts (input_text s)"
    by (auto simp: requests_generate_summary split: if_splits)
  with assms(2) have fin: "final (generate_summary t opts api s) = after_exception txt s"
    by (simp add: final_generate_summary)
  have "daily_limit (after_exception txt s) \<noteq> daily_limit s \<longrightarrow>
            (str_in (asc ''RESOURCE_EXHAUSTED'') txt \<or> str_in (asc ''429'') txt)
            \<and> (\<exists>g. re_search txt = Some g
                 \<and> daily_limit (after_exception txt s) = decimal_value g)"
    by (auto simp: after_exception_limit split: if_splits option.splits)
  moreover have "after_exception txt s
      = s\<lparr>daily_limit := daily_limit (after_exception txt s)\<rparr>"
    by (rule after_exception_state)
  ultimately show ?thesis
    by (simp add: fin)
qed

theorem failed_call_keeps_count_and_history_witness:
  "requests (generate_summary (1 / 2) balanced_options
       (raising (asc ''429 RESOURCE_EXHAUSTED quotaValue: 5'')) busy_session)
     = [request (1 / 2) balanced_options (asc ''Blockchain is a ledger.'')]
   \<and> raising (asc ''429 RESOURCE_EXHAUSTED quotaValue: 5'')
        (request (1 / 2) balanced_options (asc ''Blockchain is a ledger.''))
      = Inl (asc ''429 RESOURCE_EXHAUSTED quotaValue: 5'')
   \<and> request_count (final (generate_summary (1 / 2) balanced_options
       (raising (asc ''429 RESOURCE_EXHAUSTED quotaValue: 5'')) busy_session)) = 7
   \<and> history (final (generate_summary (1 / 2) balanced_options
       (raising (asc ''429 RESOURCE_EXHAUSTED quotaValue: 5'')) busy_session)) = []"
  using failed_call_keeps_count_and_history [of "1 / 2" balanced_options
          "raising (asc ''429 RESOURCE_EXHAUSTED quotaValue: 5'')" busy_session
          "request (1 / 2) balanced_options (asc ''Blockchain is a ledger.'')"
          "asc ''429 RESOURCE_EXHAUSTED quotaValue: 5''"]
  by (simp add: requests_generate_summary busy_session_def raising_def strip_def isspace_def
        asc_def)

subsection \<open>The temperature\<close>

text \<open>
  Claim C6. The temperature is the float of the table: 0.1 for "Very short", 0.3 for
  "Short", 0.5 for "Balanced", 0.7 for "Detailed", 0.9 for "Very detailed"; the lookup
  never raises, and every request a run sends carries the temperature of the chosen length
  together with the prompt built from the chosen options.
\<close>

theorem temperature_table:
  "temperature Very_short = Inr (float_literal (1 / 10))
   \<and> temperature Short = Inr (float_literal (3 / 10))
   \<and> temperature Balanced = Inr (float_literal (5 / 10))
   \<and> temperature Detailed = Inr (float_literal (7 / 10))
   \<and> temperature Very_detailed = Inr (float_literal (9 / 10))
   \<and> (\<forall>r\<in>set (requests (script i st)).
         temperature (length_choice (chosen i)) = Inr (config_temperature r)
         \<and> contents r = prompt (chosen i) (input_text (final (script i st))))"
proof -
  obtain t where t: "temperature (length_choice (chosen i)) = Inr t"
    using temperature_total by blast
  have "\<forall>r\<in>set (requests (script i st)).
         temperature (length_choice (chosen i)) = Inr (config_temperature r)
         \<and> contents r = prompt (chosen i) (input_text (final (script i st)))"
    by (simp add: requests_script requests_generate_summary final_script t request_def Let_def
          split: sum.splits)
  then show ?thesis
    by (simp add: temperature_values)
qed

theorem temperature_table_witness:
  "requests (script first_summary None)
     = [\<lparr>model = asc ''gemini-2.5-flash'',
         contents = prompt (chosen first_summary) (asc ''Blockchain is a ledger.''),
         config_temperature = float_literal (1 / 10), config_max_output_tokens = 300\<rparr>]
   \<and> length_choice (chosen first_summary) = Very_short
   \<and> temperature Very_short = Inr (float_literal (1 / 10))"
  using temperature_table [of first_summary None]
  by (simp add: requests_script_in_range requests_generate_summary first_summary_def
        balanced_options_def text_area_def daily_reset_def temperature_values request_def
        strip_def isspace_def asc_def)

subsection \<open>The search for the reported limit\<close>

lemma re_search_no_digit:
  assumes "\<forall>c\<in>set s. \<not> isdecimal c"
  shows "re_search s = None"
  using assms
proof (induction s)
  case Nil
  then show ?case by (simp add: match_here_def asc_def)
next
  case (Cons c cs)
  have "set (drop 10 (c # cs)) \<subseteq> set (c # cs)" by (rule set_drop_subset)
  with Cons.prems have "dropWhile (\<lambda>c. \<not> isdecimal c) (drop 10 (c # cs)) = []"
    by (auto simp: dropWhile_eq_Nil_conv)
  then have "match_here (c # cs) = None"
    by (simp add: match_here_def Let_def)
  with Cons show ?case by simp
qed

lemma token_has_no_digit: "\<forall>c\<in>set (asc ''quotaValue''). \<not> isdecimal c"
  by (simp add: isdecimal_ascii asc_def)

lemma no_digit_after_token:
  assumes "prefix (asc ''quotaValue'') s" and "dropWhile (\<lambda>c. \<not> isdecimal c) (drop 10 s) = []"
  shows "\<forall>c\<in>set s. \<not> isdecimal c"
proof -
  from assms(1) obtain r where s: "s = asc ''quotaValue'' @ r" by (auto simp: prefix_def)
  then have "drop 10 s = r" by simp
  with assms(2) have "\<forall>c\<in>set r. \<not> isdecimal c" by (simp add: dropWhile_eq_Nil_conv)
  with token_has_no_digit show ?thesis unfolding s set_append by blast
qed

text \<open>
  The search of the source finds the digits that the words of the specification describe.
\<close>

lemma re_search_reported_digits:
  "re_search msg = reported_digits msg"
proof -
  define tok where "tok = asc ''quotaValue''"
  have mh: "match_here s =
      (if prefix tok s
       then (let rest = dropWhile (\<lambda>c. \<not> isdecimal c) (drop 10 s)
             in if rest = [] then None else Some (takeWhile isdecimal rest))
       else None)" for s
    unfolding tok_def by (rule match_here_def)
  have rl: "reported_digits s =
      (case after_token tok s of None \<Rightarrow> None | Some rest \<Rightarrow> first_integer rest)" for s
    unfolding tok_def by (rule reported_digits_def)
  have len: "length tok = 10" and ne: "tok \<noteq> []"
    by (simp_all add: tok_def asc_def)
  show ?thesis
  proof (induction msg)
    case Nil
    show ?case using ne by (simp add: mh rl)
  next
    case (Cons c cs)
    show ?case
    proof (cases "prefix tok (c # cs)")
      case False
      then have "match_here (c # cs) = None" by (simp add: mh)
      with False Cons show ?thesis by (simp add: rl)
    next
      case True
      then have at: "after_token tok (c # cs) = Some (drop 10 (c # cs))"
        by (simp only: after_token.simps if_True len)
      show ?thesis
      proof (cases "dropWhile (\<lambda>c. \<not> isdecimal c) (drop 10 (c # cs))")
        case Nil
        have "\<forall>x\<in>set (c # cs). \<not> isdecimal x"
          using True Nil unfolding tok_def by (rule no_digit_after_token)
        then have "re_search cs = None" by (intro re_search_no_digit) simp
        moreover have "match_here (c # cs) = None" using True Nil by (simp add: mh)
        moreover have "first_integer (drop 10 (c # cs)) = None"
          unfolding first_integer_def Nil by simp
        ultimately show ?thesis
          by (simp only: rl at option.case re_search.simps)
      next
        case (Cons d ds)
        then have "match_here (c # cs) = Some (takeWhile isdecimal (d # ds))"
          using True by (simp add: mh)
        moreover have "first_integer (drop 10 (c # cs))
            = Some (takeWhile isdecimal (d # ds))"
          unfolding first_integer_def Cons by simp
        ultimately show ?thesis
          by (simp only: rl at option.case re_search.simps)
      qed
    qed
  qed
qed

lemma str_in_iff: "str_in p s \<longleftrightarrow> (\<exists>a b. s = a @ p @ b)"
proof (induction s)
  case Nil
  then show ?case by auto
next
  case (Cons c cs)
  show ?case
  proof
    assume "str_in p (c # cs)"
    then consider "prefix p (c # cs)" | "str_in p cs" by auto
    then show "\<exists>a b. c # cs = a @ p @ b"
    proof cases
      case 1
      then obtain b where "c # cs = p @ b" by (auto simp: prefix_def)
      then have "c # cs = [] @ p @ b" by simp
      then show ?thesis by blast
    next
      case 2
      with Cons obtain a b where "cs = a @ p @ b" by blast
      then have "c # cs = (c # a) @ p @ b" by simp
      then show ?thesis by blast
    qed
  next
    assume "\<exists>a b. c # cs = a @ p @ b"
    then obtain a b where ab: "c # cs = a @ p @ b" by blast
    show "str_in p (c # cs)"
    proof (cases a)
      case Nil
      with ab have "prefix p (c # cs)" by (simp add: prefix_def)
      then show ?thesis by simp
    next
      case (Cons x a')
      with ab have "cs = a' @ p @ b" by simp
      then have "str_in p cs" using Cons.IH by blast
      then show ?thesis by simp
    qed
  qed
qed

subsection \<open>Decimal numerals\<close>

lemma isdecimal_digit_char: "d < 10 \<Longrightarrow> isdecimal (digit_char d)"
  by (simp add: isdecimal_ascii digit_char_def)

lemma digit_val_digit_char: "d < 10 \<Longrightarrow> digit_val (digit_char d) = d"
  by (simp add: digit_val_ascii digit_char_def)

lemma str_nat_digits: "\<forall>c\<in>set (str_nat n). isdecimal c"
proof (induction n rule: str_nat.induct)
  case (1 n)
  then show ?case
    by (subst str_nat.simps) (auto simp: isdecimal_digit_char)
qed

lemma str_nat_not_empty: "str_nat n \<noteq> []"
  by (subst str_nat.simps) simp

lemma foldl_digits_str_nat:
  "foldl (\<lambda>acc c. 10 * acc + digit_val c) 0 (str_nat n) = n"
proof (induction n rule: str_nat.induct)
  case (1 n)
  show ?case
  proof (cases "n < 10")
    case True
    then show ?thesis by (subst str_nat.simps) (simp add: digit_val_digit_char)
  next
    case False
    with 1 show ?thesis by (subst str_nat.simps) (simp add: digit_val_digit_char)
  qed
qed

text \<open>\<^verbatim>\<open>int(str(n))\<close> is \<open>n\<close>, as long as \<^verbatim>\<open>str(n)\<close> has at most 4300 digits.\<close>

lemma decimal_value_str_nat: "decimal_value (str_nat n) = int n"
  by (simp add: decimal_value_def foldl_digits_str_nat)

lemma py_int_str_nat: "length (str_nat n) \<le> 4300 \<Longrightarrow> py_int (str_nat n) = Inr (int n)"
  by (simp add: py_int_def decimal_value_str_nat)

text \<open>Digits of other scripts count: an Arabic-Indic three (U+0663) before the 20.\<close>

lemma re_search_arabic_indic:
  "re_search (asc ''429 quotaValue: '' @ [1635] @ asc '' then 20'') = Some [1635]
   \<and> py_int [1635] = Inr 3"
  by (simp add: match_here_def isdecimal_ascii isdecimal_def digit_val_def decimal_digit_def
        decimal_zeros_def py_int_def decimal_value_def asc_def Let_def)

text \<open>The no-break space (U+00A0) and the em space (U+2003) are whitespace.\<close>

lemma strip_split_unicode:
  "strip [160, 8195] = [] \<and> split [97, 160, 98] = [[97], [98]]"
  by (simp add: strip_def split_def isspace_def)

subsection \<open>The \<^verbatim>\<open>except\<close> branch\<close>

lemma foldl_nines:
  "foldl (\<lambda>acc c. 10 * acc + digit_val c) a (replicate n 57) + 1 = (a + 1) * 10 ^ n"
  by (induction n arbitrary: a) (simp_all add: digit_val_ascii algebra_simps)

lemma decimal_value_nines: "decimal_value (replicate n 57) = 10 ^ n - 1"
proof -
  have "int (foldl (\<lambda>acc c. 10 * acc + digit_val c) 0 (replicate n 57) + 1) = int (10 ^ n)"
    by (simp only: foldl_nines) simp
  then show ?thesis by (simp add: decimal_value_def)
qed

lemma re_search_nines:
  "re_search (asc ''429 quotaValue: '' @ replicate (Suc n) 57) = Some (replicate (Suc n) 57)"
proof -
  have d: "isdecimal 57" by (simp add: isdecimal_ascii)
  have "takeWhile isdecimal (replicate n 57) = replicate n 57"
    using d by (simp add: takeWhile_replicate)
  then show ?thesis
    by (simp add: match_here_def isdecimal_ascii asc_def Let_def)
qed

lemma re_search_long_quota_message:
  "re_search long_quota_message = Some (replicate 4301 57)"
proof -
  have "(4301::nat) = Suc 4300" by simp
  then show ?thesis
    unfolding long_quota_message_def by (simp only: re_search_nines)
qed

lemma str_nat_4301: "str_nat 4301 = asc ''4301''"
  by (simp add: str_nat.simps digit_char_def asc_def)

lemma above_twenty:
  assumes "2 \<le> n"
  shows "(20::int) \<noteq> 10 ^ n - 1"
proof -
  have "(10::int) ^ 2 \<le> 10 ^ n" using assms by (intro power_increasing) simp_all
  then show ?thesis by simp
qed

lemma str_in_middle: "str_in p (a @ p @ b)"
  by (auto simp: str_in_iff)

text \<open>
  Claim C5, as amended. An exception whose text contains \<^verbatim>\<open>RESOURCE_EXHAUSTED\<close> or \<^verbatim>\<open>429\<close> is
  a quota error. When the text has an integer after the token \<^verbatim>\<open>quotaValue\<close> and the first
  such integer is written with at most 4300 digits, the handler adopts it as the limit,
  whether lower or higher than before, and shows "Gemini quota reached" and the new limit;
  nothing else in the session changes. When there is no such integer the limit stays. When
  the integer has more than 4300 digits, the \<^verbatim>\<open>int\<close> of line 189 raises \<^verbatim>\<open>ValueError\<close>, which
  leaves the handler: nothing is shown and the session is unchanged. Any other exception
  is shown as its own text and the session is unchanged. The search of the source finds
  exactly the digits that the words of the specification describe. When the client raises,
  this branch is all the handler does.
\<close>

theorem quota_error_adopts_reported_limit:
  "handle_exception msg s =
     (if str_in (asc ''RESOURCE_EXHAUSTED'') msg \<or> str_in (asc ''429'') msg
      then (case reported_digits msg of
              None \<Rightarrow>
                Inr ([St_error (no_entry_sign @ asc '' Gemini quota reached''),
                      St_info (asc ''Daily limit: '' @ str_int (daily_limit s))], s)
            | Some ds \<Rightarrow>
                if length ds \<le> 4300
                then Inr ([St_error (no_entry_sign @ asc '' Gemini quota reached''),
                           St_info (asc ''Daily limit: '' @ str_int (decimal_value ds))],
                          s\<lparr>daily_limit := decimal_value ds\<rparr>)
                else Inl (ValueError (digits_limit_message (length ds))))
      else Inr ([St_error msg], s))
   \<and> re_search msg = reported_digits msg
   \<and> (requests (generate_summary t opts api s) = [req] \<and> api req = Inl msg \<longrightarrow>
        generate_summary t opts api s =
          (case handle_exception msg s of
             Inr (w, s') \<Rightarrow>
               \<lparr>drawn = w, requests = [req], stopped = False, uncaught = None, final = s'\<rparr>
           | Inl e \<Rightarrow>
               \<lparr>drawn = [], requests = [req], stopped = False, uncaught = Some e, final = s\<rparr>))"
proof -
  have "handle_exception msg s =
     (if str_in (asc ''RESOURCE_EXHAUSTED'') msg \<or> str_in (asc ''429'') msg
      then (case reported_digits msg of
              None \<Rightarrow>
                Inr ([St_error (no_entry_sign @ asc '' Gemini quota reached''),
                      St_info (asc ''Daily limit: '' @ str_int (daily_limit s))], s)
            | Some ds \<Rightarrow>
                if length ds \<le> 4300
                then Inr ([St_error (no_entry_sign @ asc '' Gemini quota reached''),
                           St_info (asc ''Daily limit: '' @ str_int (decimal_value ds))],
                          s\<lparr>daily_limit := decimal_value ds\<rparr>)
                else Inl (ValueError (digits_limit_message (length ds))))
      else Inr ([St_error msg], s))"
    unfolding re_search_reported_digits [symmetric]
    by (cases "re_search msg")
       (simp_all add: handle_exception_def py_int_def)
  moreover have "requests (generate_summary t opts api s) = [req] \<and> api req = Inl msg \<longrightarrow>
        generate_summary t opts api s =
          (case handle_exception msg s of
             Inr (w, s') \<Rightarrow>
               \<lparr>drawn = w, requests = [req], stopped = False, uncaught = None, final = s'\<rparr>
           | Inl e \<Rightarrow>
               \<lparr>drawn = [], requests = [req], stopped = False, uncaught = Some e, final = s\<rparr>)"
    by (auto simp: generate_summary_def Let_def split: if_splits prod.splits sum.splits)
  ultimately show ?thesis
    using re_search_reported_digits by blast
qed

lemma reported_digits_example:
  "reported_digits (asc ''429 RESOURCE_EXHAUSTED quotaValue: 20'') = Some (asc ''20'')"
  "decimal_value (asc ''20'') = 20"
  "str_int 20 = asc ''20''"
  by (simp_all add: reported_digits_def first_integer_def isdecimal_ascii decimal_value_def
        digit_val_ascii str_int_def str_nat.simps digit_char_def asc_def)

theorem quota_error_adopts_reported_limit_witness:
  "str_in (asc ''429'') (asc ''429 RESOURCE_EXHAUSTED quotaValue: 20'')
   \<and> reported_digits (asc ''429 RESOURCE_EXHAUSTED quotaValue: 20'') = Some (asc ''20'')
   \<and> daily_limit (busy_session\<lparr>daily_limit := 50\<rparr>) = 50
   \<and> handle_exception (asc ''429 RESOURCE_EXHAUSTED quotaValue: 20'')
        (busy_session\<lparr>daily_limit := 50\<rparr>)
       = Inr ([St_error (no_entry_sign @ asc '' Gemini quota reached''),
               St_info (asc ''Daily limit: 20'')],
              busy_session\<lparr>daily_limit := 20\<rparr>)
   \<and> request_count (busy_session\<lparr>daily_limit := 20\<rparr>) = 7
   \<and> requests (generate_summary (1 / 2) balanced_options
        (raising (asc ''429 RESOURCE_EXHAUSTED quotaValue: 20'')) (busy_session\<lparr>daily_limit := 50\<rparr>))
       = [request (1 / 2) balanced_options (asc ''Blockchain is a ledger.'')]
   \<and> raising (asc ''429 RESOURCE_EXHAUSTED quotaValue: 20'')
        (request (1 / 2) balanced_options (asc ''Blockchain is a ledger.''))
       = Inl (asc ''429 RESOURCE_EXHAUSTED quotaValue: 20'')
   \<and> generate_summary (1 / 2) balanced_options
        (raising (asc ''429 RESOURCE_EXHAUSTED quotaValue: 20'')) (busy_session\<lparr>daily_limit := 50\<rparr>)
       = \<lparr>drawn = [St_error (no_entry_sign @ asc '' Gemini quota reached''),
                   St_info (asc ''Daily limit: 20'')],
          requests = [request (1 / 2) balanced_options (asc ''Blockchain is a ledger.'')],
          stopped = False, uncaught = None, final = busy_session\<lparr>daily_limit := 20\<rparr>\<rparr>
   \<and> \<not> str_in (asc ''RESOURCE_EXHAUSTED'') (asc ''timed out'')
   \<and> \<not> str_in (asc ''429'') (asc ''timed out'')
   \<and> handle_exception (asc ''timed out'') busy_session
       = Inr ([St_error (asc ''timed out'')], busy_session)"
proof -
  have q: "str_in (asc ''429'') (asc ''429 RESOURCE_EXHAUSTED quotaValue: 20'')"
    and g: "\<not> str_in (asc ''RESOURCE_EXHAUSTED'') (asc ''timed out'')"
      "\<not> str_in (asc ''429'') (asc ''timed out'')"
    by (simp_all add: asc_def)
  have r: "requests (generate_summary (1 / 2) balanced_options
        (raising (asc ''429 RESOURCE_EXHAUSTED quotaValue: 20'')) (busy_session\<lparr>daily_limit := 50\<rparr>))
       = [request (1 / 2) balanced_options (asc ''Blockchain is a ledger.'')]"
    "raising (asc ''429 RESOURCE_EXHAUSTED quotaValue: 20'')
        (request (1 / 2) balanced_options (asc ''Blockchain is a ledger.''))
       = Inl (asc ''429 RESOURCE_EXHAUSTED quotaValue: 20'')"
    by (simp_all add: requests_generate_summary busy_session_def raising_def strip_def
          isspace_def asc_def)
  have app: "asc ''Daily limit: '' @ asc ''20'' = asc ''Daily limit: 20''"
    by (simp add: asc_def)
  from quota_error_adopts_reported_limit
          [of "asc ''429 RESOURCE_EXHAUSTED quotaValue: 20''" "busy_session\<lparr>daily_limit := 50\<rparr>"
              "1 / 2" balanced_options "raising (asc ''429 RESOURCE_EXHAUSTED quotaValue: 20'')"
              "request (1 / 2) balanced_options (asc ''Blockchain is a ledger.'')"]
  have 1: "handle_exception (asc ''429 RESOURCE_EXHAUSTED quotaValue: 20'')
        (busy_session\<lparr>daily_limit := 50\<rparr>)
       = Inr ([St_error (no_entry_sign @ asc '' Gemini quota reached''),
               St_info (asc ''Daily limit: 20'')],
              busy_session\<lparr>daily_limit := 20\<rparr>)"
    and 2: "generate_summary (1 / 2) balanced_options
        (raising (asc ''429 RESOURCE_EXHAUSTED quotaValue: 20'')) (busy_session\<lparr>daily_limit := 50\<rparr>)
       = \<lparr>drawn = [St_error (no_entry_sign @ asc '' Gemini quota reached''),
                   St_info (asc ''Daily limit: 20'')],
          requests = [request (1 / 2) balanced_options (asc ''Blockchain is a ledger.'')],
          stopped = False, uncaught = None, final = busy_session\<lparr>daily_limit := 20\<rparr>\<rparr>"
    using q r by (simp_all add: reported_digits_example app)
  from quota_error_adopts_reported_limit [of "asc ''timed out''" busy_session]
  have 3: "handle_exception (asc ''timed out'') busy_session
       = Inr ([St_error (asc ''timed out'')], busy_session)"
    using g by simp
  show ?thesis
    using q g r 1 2 3 reported_digits_example(1) by (simp add: busy_session_def)
qed

text \<open>
  Claim C5, as stated, fails for a quota error whose integer after \<^verbatim>\<open>quotaValue\<close> has 4301
  digits: the integer is present, and it is \<open>10\<^sup>4\<^sup>3\<^sup>0\<^sup>1 - 1\<close>, but the limit stays 20 and the
  handler ends with an exception that nothing catches.
\<close>

theorem long_quota_value_counterexample:
  "str_in (asc ''429'') long_quota_message
   \<and> reported_digits long_quota_message = Some (replicate 4301 57)
   \<and> decimal_value (replicate 4301 57) = 10 ^ 4301 - 1
   \<and> handle_exception long_quota_message busy_session
       = Inl (ValueError (asc ''Exceeds the limit (4300 digits) for integer string conversion: value has 4301 digits; use sys.set_int_max_str_digits() to increase the limit''))
   \<and> daily_limit busy_session = 20
   \<and> generate_summary (1 / 2) balanced_options (raising long_quota_message) busy_session
       = \<lparr>drawn = [],
          requests = [request (1 / 2) balanced_options (asc ''Blockchain is a ledger.'')],
          stopped = False,
          uncaught = Some (ValueError (asc ''Exceeds the limit (4300 digits) for integer string conversion: value has 4301 digits; use sys.set_int_max_str_digits() to increase the limit'')),
          final = busy_session\<rparr>
   \<and> daily_limit (final (generate_summary (1 / 2) balanced_options (raising long_quota_message)
        busy_session)) \<noteq> decimal_value (replicate 4301 57)"
proof -
  have e: "long_quota_message = [] @ asc ''429'' @ (asc '' quotaValue: '' @ replicate 4301 57)"
    by (simp add: long_quota_message_def asc_def)
  have q: "str_in (asc ''429'') long_quota_message"
    unfolding e by (rule str_in_middle)
  have rd: "reported_digits long_quota_message = Some (replicate 4301 57)"
    using re_search_long_quota_message by (simp only: re_search_reported_digits)
  have dv: "decimal_value (replicate 4301 57) = 10 ^ 4301 - 1"
    by (rule decimal_value_nines)
  have m: "digits_limit_message 4301 = asc ''Exceeds the limit (4300 digits) for integer string conversion: value has 4301 digits; use sys.set_int_max_str_digits() to increase the limit''"
    by (simp add: digits_limit_message_def str_nat_4301) (simp add: asc_def)
  have "handle_exception long_quota_message busy_session
       = Inl (ValueError (digits_limit_message 4301))"
    using q by (simp add: handle_exception_def re_search_long_quota_message py_int_def)
  then have h: "handle_exception long_quota_message busy_session
       = Inl (ValueError (asc ''Exceeds the limit (4300 digits) for integer string conversion: value has 4301 digits; use sys.set_int_max_str_digits() to increase the limit''))"
    by (simp only: m)
  have lim: "daily_limit busy_session = 20"
    by (simp add: busy_session_def)
  have ok: "\<not> (daily_limit busy_session \<le> request_count busy_session
              \<or> strip (input_text busy_session) = [])"
    by (simp add: busy_session_def strip_def isspace_def asc_def)
  have inp: "input_text busy_session = asc ''Blockchain is a ledger.''"
    by (simp add: busy_session_def)
  have g: "generate_summary (1 / 2) balanced_options (raising long_quota_message) busy_session
       = \<lparr>drawn = [],
          requests = [request (1 / 2) balanced_options (asc ''Blockchain is a ledger.'')],
          stopped = False,
          uncaught = Some (ValueError (asc ''Exceeds the limit (4300 digits) for integer string conversion: value has 4301 digits; use sys.set_int_max_str_digits() to increase the limit'')),
          final = busy_session\<rparr>"
    using ok by (simp add: generate_summary_def raising_def h Let_def inp)
  have f: "final (generate_summary (1 / 2) balanced_options (raising long_quota_message)
        busy_session) = busy_session"
    by (simp add: g)
  have "(2::nat) \<le> 4301" by simp
  then have big: "(20::int) \<noteq> 10 ^ 4301 - 1" by (rule above_twenty)
  have ne: "daily_limit (final (generate_summary (1 / 2) balanced_options
        (raising long_quota_message) busy_session)) \<noteq> decimal_value (replicate 4301 57)"
    unfolding f lim dv by (rule big)
  from q rd dv h lim g ne show ?thesis by (intro conjI)
qed

subsection \<open>The pieces of the prompt\<close>

lemma lower_summary_length_label:
  "lower (summary_length_label Very_short) = asc ''very short''"
  "lower (summary_length_label Short) = asc ''short''"
  "lower (summary_length_label Balanced) = asc ''balanced''"
  "lower (summary_length_label Detailed) = asc ''detailed''"
  "lower (summary_length_label Very_detailed) = asc ''very detailed''"
  by (simp_all add: lower_def lower_char_def asc_def)

text \<open>
  Claim C7. The prompt contains, as they are, the length descriptor (the label of the
  slider in lower case), the language, the format and the whole input text, which stands
  before the final line feed; the request of the handler carries that prompt, built from
  the \<^verbatim>\<open>input_text\<close> of the session.
\<close>

theorem prompt_contains_request:
  "str_in (lower (summary_length_label (length_choice opts))) (prompt opts text_input)
   \<and> str_in (language_label (language_choice opts)) (prompt opts text_input)
   \<and> str_in (format_type_label (format_choice opts)) (prompt opts text_input)
   \<and> str_in text_input (prompt opts text_input)
   \<and> (\<exists>before. prompt opts text_input = before @ text_input @ [10])
   \<and> (\<forall>req\<in>set (requests (generate_summary t opts api s)).
         contents req = prompt opts (input_text s))"
proof -
  let ?len = "lower (summary_length_label (length_choice opts))"
  let ?lang = "language_label (language_choice opts)"
  let ?fmt = "format_type_label (format_choice opts)"
  have "prompt opts text_input = ([10] @ asc ''Provide a '') @ ?len
          @ (asc '' summary.'' @ [10, 10] @ asc ''Language: '' @ ?lang @ [10]
             @ asc ''Format: '' @ ?fmt @ [10, 10] @ asc ''Text:'' @ [10]
             @ text_input @ [10])"
    by (simp add: prompt_def)
  then have 1: "str_in ?len (prompt opts text_input)"
    by (simp only: str_in_middle)
  have "prompt opts text_input = ([10] @ asc ''Provide a '' @ ?len @ asc '' summary.''
          @ [10, 10] @ asc ''Language: '') @ ?lang
          @ ([10] @ asc ''Format: '' @ ?fmt @ [10, 10] @ asc ''Text:'' @ [10]
             @ text_input @ [10])"
    by (simp add: prompt_def)
  then have 2: "str_in ?lang (prompt opts text_input)"
    by (simp only: str_in_middle)
  have "prompt opts text_input = ([10] @ asc ''Provide a '' @ ?len @ asc '' summary.''
          @ [10, 10] @ asc ''Language: '' @ ?lang @ [10] @ asc ''Format: '') @ ?fmt
          @ ([10, 10] @ asc ''Text:'' @ [10] @ text_input @ [10])"
    by (simp add: prompt_def)
  then have 3: "str_in ?fmt (prompt opts text_input)"
    by (simp only: str_in_middle)
  have 4: "prompt opts text_input = ([10] @ asc ''Provide a '' @ ?len @ asc '' summary.''
          @ [10, 10] @ asc ''Language: '' @ ?lang @ [10] @ asc ''Format: '' @ ?fmt
          @ [10, 10] @ asc ''Text:'' @ [10]) @ text_input @ [10]"
    by (simp add: prompt_def)
  then have 5: "str_in text_input (prompt opts text_input)"
    by (simp only: str_in_middle)
  have 6: "\<forall>req\<in>set (requests (generate_summary t opts api s)).
         contents req = prompt opts (input_text s)"
    by (simp add: requests_generate_summary request_def)
  from 1 2 3 4 5 6 show ?thesis by blast
qed

theorem prompt_contains_request_witness:
  "lower (summary_length_label (length_choice balanced_options)) = asc ''balanced''
   \<and> language_label (language_choice balanced_options) = asc ''English''
   \<and> format_type_label (format_choice balanced_options) = asc ''Paragraph''
   \<and> str_in (asc ''balanced'') (prompt balanced_options (asc ''Blockchain is a ledger.''))
   \<and> str_in (asc ''English'') (prompt balanced_options (asc ''Blockchain is a ledger.''))
   \<and> str_in (asc ''Paragraph'') (prompt balanced_options (asc ''Blockchain is a ledger.''))
   \<and> str_in (asc ''Blockchain is a ledger.'') (prompt balanced_options (asc ''Blockchain is a ledger.''))"
proof -
  have e: "lower (summary_length_label (length_choice balanced_options)) = asc ''balanced''"
    "language_label (language_choice balanced_options) = asc ''English''"
    "format_type_label (format_choice balanced_options) = asc ''Paragraph''"
    using lower_summary_length_label(3) by (simp_all add: balanced_options_def)
  show ?thesis
    using prompt_contains_request [of balanced_options "asc ''Blockchain is a ledger.''"]
    unfolding e by blast
qed

subsection \<open>The reduction\<close>

lemma reduction_accuracy:
  assumes "original \<noteq> 0"
  shows "\<exists>r. reduction original summ = Inr r
           \<and> \<bar>r - of_int (original - summ) / of_int original * 100\<bar>
               \<le> \<bar>of_int (original - summ) / of_int original * 100\<bar> / 2 ^ 51"
proof -
  define q :: real where "q = of_int (original - summ) / of_int original"
  define a where "a = round53 q"
  define r where "r = round53 (a * 100)"
  have red: "reduction original summ = Inr r"
    using assms by (simp add: reduction_def py_truediv_def py_fmul_def round53_100 r_def a_def q_def)
  have 1: "\<bar>a - q\<bar> \<le> \<bar>q\<bar> / 2 ^ 53" unfolding a_def by (rule round53_error)
  have 2: "\<bar>r - a * 100\<bar> \<le> \<bar>a * 100\<bar> / 2 ^ 53" unfolding r_def by (rule round53_error)
  from 1 have 3: "\<bar>a\<bar> \<le> 2 * \<bar>q\<bar>" by (simp add: abs_if split: if_splits)
  have "\<bar>r - q * 100\<bar> \<le> \<bar>r - a * 100\<bar> + 100 * \<bar>a - q\<bar>" by (simp add: abs_if split: if_splits)
  also have "\<dots> \<le> \<bar>a\<bar> * 100 / 2 ^ 53 + 100 * (\<bar>q\<bar> / 2 ^ 53)"
    using 1 2 by (simp add: abs_mult)
  also have "\<dots> \<le> 2 * \<bar>q\<bar> * 100 / 2 ^ 53 + 100 * (\<bar>q\<bar> / 2 ^ 53)"
    using 3 by simp
  also have "\<dots> \<le> \<bar>q * 100\<bar> / 2 ^ 51" by (simp add: abs_mult)
  finally show ?thesis using red unfolding q_def by blast
qed

lemma reduction_100_20: "reduction 100 20 = Inr 80"
  by (simp add: reduction_def py_truediv_def py_fmul_def round53_100)
     (simp add: round53_def floor_log2_def round_half_even_def bit_length.simps)

text \<open>
  Claim C8. The reduction is the float value of \<^verbatim>\<open>(original - summ) / original * 100\<close>
  when \<open>original\<close> is not 0, which differs from the exact percentage by at most the
  fraction \<open>2\<^sup>-\<^sup>5\<^sup>1\<close> of it, and is 0 when \<open>original\<close> is 0, so it never divides by zero; for
  100 and 20 words it is exactly 80. The handler computes it from the numbers of
  whitespace-separated words of the input and of the answer and shows it with them.
\<close>

theorem reduction_percent:
  "reduction original summ =
     (if original = 0 then Inr 0
      else Inr (py_fmul (round53 (of_int (original - summ) / of_int original)) 100))
   \<and> (original \<noteq> 0 \<longrightarrow>
        (\<exists>r. reduction original summ = Inr r
           \<and> \<bar>r - of_int (original - summ) / of_int original * 100\<bar>
               \<le> \<bar>of_int (original - summ) / of_int original * 100\<bar> / 2 ^ 51))
   \<and> reduction 0 summ = Inr 0
   \<and> reduction 100 20 = Inr 80
   \<and> (\<exists>r. reduction (int (length (split text_input))) (int (length (split answer))) = Inr r
          \<and> fst (show_summary text_input answer s)
              = [St_write answer,
                 St_download_button (clipboard @ asc '' Copy Summary'') answer (asc ''summary.txt''),
                 St_metric_int (asc ''Original words'') (int (length (split text_input))),
                 St_metric_int (asc ''Summary words'') (int (length (split answer))),
                 St_metric_percent (asc ''Reduction %'') r])"
proof -
  obtain r where r: "reduction (int (length (split text_input))) (int (length (split answer))) = Inr r"
    using reduction_total by blast
  then have "fst (show_summary text_input answer s)
              = [St_write answer,
                 St_download_button (clipboard @ asc '' Copy Summary'') answer (asc ''summary.txt''),
                 St_metric_int (asc ''Original words'') (int (length (split text_input))),
                 St_metric_int (asc ''Summary words'') (int (length (split answer))),
                 St_metric_percent (asc ''Reduction %'') r]"
    by (simp add: show_summary_def Let_def)
  with r have shown: "\<exists>r. reduction (int (length (split text_input))) (int (length (split answer))) = Inr r
          \<and> fst (show_summary text_input answer s)
              = [St_write answer,
                 St_download_button (clipboard @ asc '' Copy Summary'') answer (asc ''summary.txt''),
                 St_metric_int (asc ''Original words'') (int (length (split text_input))),
                 St_metric_int (asc ''Summary words'') (int (length (split answer))),
                 St_metric_percent (asc ''Reduction %'') r]"
    by blast
  have "reduction original summ =
     (if original = 0 then Inr 0
      else Inr (py_fmul (round53 (of_int (original - summ) / of_int original)) 100))"
    and "reduction 0 summ = Inr 0"
    by (simp_all add: reduction_def py_truediv_def)
  with shown reduction_100_20 reduction_accuracy [of original summ] show ?thesis
    by blast
qed

theorem reduction_percent_witness:
  "(5::int) \<noteq> 0 \<and> reduction 5 3 = Inr 40 \<and> reduction 0 3 = Inr 0
   \<and> reduction 100 20 = Inr 80
   \<and> py_fmul (round53 (of_int (5 - 3) / of_int 5)) 100 = 40
   \<and> (\<exists>r. reduction 5 3 = Inr r \<and> \<bar>r - 40\<bar> \<le> 40 / 2 ^ 51)"
proof -
  have "py_fmul (round53 (2 / 5)) 100 = 40"
    by (simp add: py_fmul_def round53_100)
       (simp add: round53_def floor_log2_def round_half_even_def bit_length.simps)
  then show ?thesis
    using reduction_percent [of 5 3 "asc ''a b c d e''" "asc ''a b c''" busy_session]
          reduction_percent [of 0 3 "asc ''a b c d e''" "asc ''a b c''" busy_session]
    by simp
qed

subsection \<open>A summary that succeeds\<close>

lemma summarized_step:
  assumes "summarized i st"
  defines "s0 \<equiv> text_area (typed i) (daily_reset (today i) st)"
  shows "pressed i = Some Generate_summary \<and> request_count s0 < daily_limit s0
       \<and> strip (input_text s0) \<noteq> []
       \<and> (\<exists>answer. final (script i st) =
             s0\<lparr>request_count := request_count s0 + 1,
                history := history s0 @ [(asc ''user'', preview (input_text s0)), (asc ''ai'', answer)]\<rparr>)"
proof -
  from assms(1) have ne: "requests (script i st) \<noteq> []"
    by (auto simp: summarized_def split: list.splits)
  then obtain side where side: "sidebar s0 = Inr side"
    by (cases "sidebar s0") (simp_all add: requests_script s0_def)
  from ne side have gen: "pressed i = Some Generate_summary"
    by (simp add: requests_script s0_def [symmetric] split: if_splits)
  let ?t = "projr (temperature (length_choice (chosen i)))"
  from ne side gen have ok: "\<not> (daily_limit s0 \<le> request_count s0 \<or> strip (input_text s0) = [])"
    and req: "requests (script i st) = [request ?t (chosen i) (input_text s0)]"
    by (simp_all add: requests_script s0_def [symmetric] requests_generate_summary split: if_splits)
  from assms(1) req obtain answer where
    "gemini i (request ?t (chosen i) (input_text s0)) = Inr answer"
    by (auto simp: summarized_def split: sum.splits)
  with ok side gen have "final (script i st) =
             s0\<lparr>request_count := request_count s0 + 1,
                history := history s0 @ [(asc ''user'', preview (input_text s0)), (asc ''ai'', answer)]\<rparr>"
    by (simp add: final_script s0_def [symmetric] final_generate_summary show_summary_state)
  with ok gen show ?thesis by auto
qed

lemma runs_all_summarized:
  assumes "all_summarized js (Some s)" and "\<forall>j\<in>set js. today j = day s"
  shows "\<exists>s'. runs js (Some s) = Some s' \<and> day s' = day s
           \<and> request_count s' = request_count s + int (length js)
           \<and> daily_limit s' = daily_limit s
           \<and> length (history s') = length (history s) + 2 * length js"
  using assms
proof (induction js arbitrary: s)
  case Nil
  then show ?case by simp
next
  case (Cons j js)
  let ?s1 = "final (script j (Some s))"
  from Cons.prems have sj: "summarized j (Some s)" and rest: "all_summarized js (Some ?s1)"
    and today: "today j = day s"
    by simp_all
  from summarized_step [OF sj] today obtain answer where
    s1: "?s1 = (text_area (typed j) s)\<lparr>request_count := request_count s + 1,
            history := history s @ [(asc ''user'', preview (input_text (text_area (typed j) s))),
                                    (asc ''ai'', answer)]\<rparr>"
    by auto
  then have f: "day ?s1 = day s" "request_count ?s1 = request_count s + 1"
    "daily_limit ?s1 = daily_limit s" "length (history ?s1) = length (history s) + 2"
    by simp_all
  with Cons.prems have "\<forall>k\<in>set js. today k = day ?s1" by simp
  from Cons.IH [OF rest this] f show ?case by auto
qed

lemma str_nat_4: "str_nat 4 = asc ''4''"
  by (simp add: str_nat.simps digit_char_def asc_def)

lemma split_example: "split (asc ''Blockchain is a ledger.'') = [asc ''Blockchain'', asc ''is'', asc ''a'', asc ''ledger.'']"
  by (simp add: split_def isspace_def asc_def)

text \<open>
  Claim C1, as amended. A successful summarization adds 1 to \<open>request_count\<close> and appends
  two entries to \<open>history\<close>: the user entry with the preview, which is the page emoji
  (U+1F4C4) and a space followed by "Text submitted (n words)" where n is the number of
  whitespace-separated words of the input, then the ai entry with the whole answer. After
  N successful summarizations on one day, starting from \<open>request_count = 0\<close> with N below
  the limit, \<open>request_count\<close> is N and \<open>remaining\<close> is the limit minus N.
\<close>

theorem summary_counts_and_logs:
  "(request_count s < daily_limit s \<and> strip (input_text s) \<noteq> []
      \<and> api (request t opts (input_text s)) = Inr answer \<longrightarrow>
    final (generate_summary t opts api s) =
      s\<lparr>request_count := request_count s + 1,
        history := history s @
          [(asc ''user'', page_facing_up @ asc '' Text submitted (''
                        @ str_nat (length (split (input_text s))) @ asc '' words)''),
           (asc ''ai'', answer)]\<rparr>)
   \<and> (request_count s = 0 \<and> (\<forall>j\<in>set js. today j = day s) \<and> all_summarized js (Some s)
        \<and> int (length js) < daily_limit s \<longrightarrow>
       (\<exists>s'. runs js (Some s) = Some s' \<and> request_count s' = int (length js)
          \<and> daily_limit s' = daily_limit s
          \<and> remaining s' = daily_limit s - int (length js)
          \<and> length (history s') = length (history s) + 2 * length js))"
proof (intro conjI impI)
  assume "request_count s < daily_limit s \<and> strip (input_text s) \<noteq> []
      \<and> api (request t opts (input_text s)) = Inr answer"
  then show "final (generate_summary t opts api s) =
      s\<lparr>request_count := request_count s + 1,
        history := history s @
          [(asc ''user'', page_facing_up @ asc '' Text submitted (''
                        @ str_nat (length (split (input_text s))) @ asc '' words)''),
           (asc ''ai'', answer)]\<rparr>"
    by (simp add: final_generate_summary show_summary_state preview_def)
next
  assume a: "request_count s = 0 \<and> (\<forall>j\<in>set js. today j = day s) \<and> all_summarized js (Some s)
        \<and> int (length js) < daily_limit s"
  then obtain s' where "runs js (Some s) = Some s'"
      "request_count s' = request_count s + int (length js)"
      "daily_limit s' = daily_limit s"
      "length (history s') = length (history s) + 2 * length js"
    using runs_all_summarized [of js s] by auto
  with a show "\<exists>s'. runs js (Some s) = Some s' \<and> request_count s' = int (length js)
          \<and> daily_limit s' = daily_limit s
          \<and> remaining s' = daily_limit s - int (length js)
          \<and> length (history s') = length (history s) + 2 * length js"
    by (auto simp: remaining_def)
qed

lemma example_two_summaries:
  "all_summarized [try_again, try_again] (Some blank_session)"
  by (simp add: summarized_def requests_script_in_range final_script_in_range
        requests_generate_summary final_generate_summary show_summary_state
        try_again_def blank_session_def answering_def text_area_def daily_reset_def
        strip_def isspace_def asc_def Let_def)

theorem summary_counts_and_logs_witness:
  "request_count busy_session < daily_limit busy_session
   \<and> strip (input_text busy_session) \<noteq> []
   \<and> answering (asc ''A ledger.'') (request (1 / 2) balanced_options (input_text busy_session))
       = Inr (asc ''A ledger.'')
   \<and> final (generate_summary (1 / 2) balanced_options (answering (asc ''A ledger.'')) busy_session)
       = busy_session\<lparr>request_count := 8,
           history := [(asc ''user'', page_facing_up @ asc '' Text submitted (4 words)''),
                       (asc ''ai'', asc ''A ledger.'')]\<rparr>
   \<and> request_count blank_session = 0
   \<and> today try_again = day blank_session
   \<and> all_summarized [try_again, try_again] (Some blank_session)
   \<and> int (length [try_again, try_again]) < daily_limit blank_session
   \<and> (\<exists>s'. runs [try_again, try_again] (Some blank_session) = Some s'
          \<and> request_count s' = 2 \<and> daily_limit s' = 50 \<and> remaining s' = 48
          \<and> length (history s') = 4)"
proof -
  have 1: "request_count busy_session < daily_limit busy_session
     \<and> strip (input_text busy_session) \<noteq> []
     \<and> answering (asc ''A ledger.'') (request (1 / 2) balanced_options (input_text busy_session))
         = Inr (asc ''A ledger.'')"
    by (simp add: busy_session_def answering_def strip_def isspace_def asc_def)
  have 2: "request_count blank_session = 0
     \<and> (\<forall>j\<in>set [try_again, try_again]. today j = day blank_session)
     \<and> all_summarized [try_again, try_again] (Some blank_session)
     \<and> int (length [try_again, try_again]) < daily_limit blank_session"
    using example_two_summaries by (simp add: blank_session_def try_again_def)
  have 3: "length (split (input_text busy_session)) = 4"
    by (simp add: busy_session_def split_example)
  from summary_counts_and_logs [of busy_session "answering (asc ''A ledger.'')" "1 / 2"
         balanced_options "asc ''A ledger.''" "[try_again, try_again]"] 1
  have "final (generate_summary (1 / 2) balanced_options (answering (asc ''A ledger.'')) busy_session)
       = busy_session\<lparr>request_count := 8,
           history := [(asc ''user'', page_facing_up @ asc '' Text submitted (4 words)''),
                       (asc ''ai'', asc ''A ledger.'')]\<rparr>"
    by (simp add: 3 str_nat_4) (simp add: busy_session_def asc_def)
  moreover from summary_counts_and_logs [of blank_session "answering (asc ''A ledger.'')" "1 / 2"
         balanced_options "asc ''A ledger.''" "[try_again, try_again]"] 2
  have "\<exists>s'. runs [try_again, try_again] (Some blank_session) = Some s'
          \<and> request_count s' = 2 \<and> daily_limit s' = 50 \<and> remaining s' = 48
          \<and> length (history s') = 4"
    by (simp add: blank_session_def)
  ultimately show ?thesis
    using 1 2 by simp
qed


lemma example_two_days:
  "all_summarized [try_again, next_day] (Some blank_session)
   \<and> map_option request_count (runs [try_again, next_day] (Some blank_session)) = Some 1"
  by (simp add: summarized_def requests_script_in_range final_script_in_range
        requests_generate_summary final_generate_summary show_summary_state next_day_def
        try_again_def blank_session_def answering_def text_area_def daily_reset_def
        strip_def isspace_def asc_def Let_def)

text \<open>
  Claim C1, as stated, fails in two places. The user entry is not the string
  "Text submitted (4 words)": the preview starts with the emoji. And two successful
  summarizations, the second on the next day, leave \<open>request_count\<close> at 1, not 2, since
  the daily reset comes in between.
\<close>

theorem user_entry_and_day_change_counterexample:
  "request_count busy_session < daily_limit busy_session
   \<and> strip (input_text busy_session) \<noteq> []
   \<and> answering (asc ''A ledger.'') (request (1 / 2) balanced_options (input_text busy_session))
       = Inr (asc ''A ledger.'')
   \<and> length (split (input_text busy_session)) = 4
   \<and> history (final (generate_summary (1 / 2) balanced_options (answering (asc ''A ledger.''))
        busy_session))
       \<noteq> history busy_session @ [(asc ''user'', asc ''Text submitted (4 words)''), (asc ''ai'', asc ''A ledger.'')]
   \<and> request_count blank_session = 0
   \<and> int (length [try_again, next_day]) < daily_limit blank_session
   \<and> all_summarized [try_again, next_day] (Some blank_session)
   \<and> map_option request_count (runs [try_again, next_day] (Some blank_session)) = Some 1"
proof -
  have lt: "request_count busy_session < daily_limit busy_session"
    by (simp add: busy_session_def)
  have ne: "strip (input_text busy_session) \<noteq> []"
    by (simp add: busy_session_def strip_def isspace_def asc_def)
  have ans: "answering (asc ''A ledger.'') (request (1 / 2) balanced_options (input_text busy_session))
       = Inr (asc ''A ledger.'')"
    by (simp add: answering_def)
  have len: "length (split (input_text busy_session)) = 4"
    by (simp add: busy_session_def split_example)
  have hist: "history (final (generate_summary (1 / 2) balanced_options
        (answering (asc ''A ledger.'')) busy_session))
      = history busy_session @ [(asc ''user'', preview (input_text busy_session)),
                                (asc ''ai'', asc ''A ledger.'')]"
    using lt ne by (simp add: final_generate_summary show_summary_state answering_def)
  have "preview (input_text busy_session) \<noteq> asc ''Text submitted (4 words)''"
    by (simp add: preview_def page_facing_up_def asc_def)
  then have differ: "history (final (generate_summary (1 / 2) balanced_options
        (answering (asc ''A ledger.'')) busy_session))
       \<noteq> history busy_session @ [(asc ''user'', asc ''Text submitted (4 words)''), (asc ''ai'', asc ''A ledger.'')]"
    unfolding hist by simp
  have "request_count blank_session = 0
   \<and> int (length [try_again, next_day]) < daily_limit blank_session"
    by (simp add: blank_session_def)
  with lt ne ans len differ show ?thesis
    using example_two_days by blast
qed

end
